theory Spec2Isabelle
  imports Main "HOL-Library.Word"
begin

section \<open>The in-process message broker (package broker)\<close>

text \<open>
  The broker keeps its messages, queues and topics behind Go pointers and mutates them in
  place, so the model is an explicit store: one typed heap per struct, indexed by address,
  with an allocation counter per heap.  Every operation takes the store and returns the
  new one.  A method that holds the receiver's mutex for its whole body is one atomic
  state transformer.

  Times are instants counted in nanoseconds from Go's zero \<open>time.Time\<close>, so the zero
  time is \<open>0\<close>; durations are nanosecond counts.  Both are integers here; a Go
  \<open>Duration\<close> is one between \<open>minDuration\<close> and \<open>maxDuration\<close>, the 64-bit bounds (about
  292 years), and the difference of two instants is cut off at these bounds, as
  \<open>Time.Sub\<close> and \<open>time.Since\<close> do.  Go's \<open>int\<close> and \<open>int64\<close> are 64-bit words read as
  two's complement.

  \<open>time.Now()\<close> and \<open>uuid.New()\<close> are inputs from the environment: the store carries
  the sequence of their results and the number of results consumed so far.  Log output is
  not part of the state.
\<close>

subsection \<open>Data\<close>

type_synonym addr = nat

type_synonym time = int

type_synonym duration = int

type_synonym go_int = "64 word"

type_synonym byte = "8 word"

datatype error =
    ErrTopicNotFound
  | ErrQueueNotFound
  | ErrMessageNotFound
  | ErrInvalidReceiptHandle
  | ErrQueueEmpty

text \<open>\<open>Metadata\<close> is a Go map, a reference: \<open>None\<close> is the nil map, \<open>Some a\<close> the map
  stored at address \<open>a\<close>.  \<open>Payload\<close> is never written after a message is built, so the
  bytes are held in the record (a nil and an empty slice are not told apart).\<close>

record Message =
  ID :: string
  Type :: string
  Payload :: "byte list"
  Metadata :: "addr option"
  Timestamp :: time
  RetryCount :: go_int
  VisibleAt :: time
  ReceiptHandle :: string

record QueueStats =
  TotalReceived :: go_int
  TotalProcessed :: go_int
  TotalFailed :: go_int
  CurrentSize :: go_int

record Queue =
  q_name :: string
  messages :: "addr list"
  visibilityTimeout :: duration
  maxRetries :: go_int
  deadLetterQueue :: "addr option"
  q_stats :: QueueStats

record Topic =
  t_name :: string
  subscribers :: "addr list"

text \<open>A \<open>context.Context\<close>, as far as the broker could look at it: its deadline.\<close>

record Context =
  deadline :: "time option"

record InMemoryIdempotencyStore =
  processed :: "string \<rightharpoonup> time"
  ttl :: duration

text \<open>The store.  The idempotency stores are heap objects too, shared between a worker
  and whoever else holds the pointer.  \<open>spawned\<close> lists the goroutines started and not yet run: each is the
  pair of variables its closure captured, the source queue and the dead-letter copy.\<close>

record world =
  msg_heap :: "addr \<Rightarrow> Message"
  msg_next :: addr
  map_heap :: "addr \<Rightarrow> (string \<rightharpoonup> string)"
  map_next :: addr
  queue_heap :: "addr \<Rightarrow> Queue"
  queue_next :: addr
  topic_heap :: "addr \<Rightarrow> Topic"
  topic_next :: addr
  store_heap :: "addr \<Rightarrow> InMemoryIdempotencyStore"
  store_next :: addr
  clock :: "nat \<Rightarrow> time"
  clock_reads :: nat
  uuid_gen :: "nat \<Rightarrow> string"
  uuid_reads :: nat
  spawned :: "(addr \<times> addr) list"

subsection \<open>Environment and allocation\<close>

definition time_Now :: "world \<Rightarrow> time \<times> world" where
  "time_Now w = (clock w (clock_reads w), w\<lparr>clock_reads := Suc (clock_reads w)\<rparr>)"

text \<open>\<open>t.Sub(u)\<close> of the Go library is the difference \<open>t - u\<close> when that is a \<open>Duration\<close>,
  and otherwise the largest or the smallest \<open>Duration\<close>; \<open>time.Since(t)\<close> is
  \<open>time.Now().Sub(t)\<close>.\<close>

definition minDuration :: duration where
  "minDuration = - (2 ^ 63)"

definition maxDuration :: duration where
  "maxDuration = 2 ^ 63 - 1"

definition time_Sub :: "time \<Rightarrow> time \<Rightarrow> duration" where
  "time_Sub t u =
     (if maxDuration < t - u then maxDuration
      else if t - u < minDuration then minDuration
      else t - u)"

definition time_Since :: "time \<Rightarrow> world \<Rightarrow> duration \<times> world" where
  "time_Since t w = (let (now, w') = time_Now w in (time_Sub now t, w'))"

definition uuid_New :: "world \<Rightarrow> string \<times> world" where
  "uuid_New w = (uuid_gen w (uuid_reads w), w\<lparr>uuid_reads := Suc (uuid_reads w)\<rparr>)"

definition new_Message :: "Message \<Rightarrow> world \<Rightarrow> addr \<times> world" where
  "new_Message m w =
     (msg_next w, w\<lparr>msg_heap := (msg_heap w)(msg_next w := m), msg_next := Suc (msg_next w)\<rparr>)"

definition new_map :: "world \<Rightarrow> addr \<times> world" where
  "new_map w =
     (map_next w, w\<lparr>map_heap := (map_heap w)(map_next w := Map.empty), map_next := Suc (map_next w)\<rparr>)"

definition put_msg :: "addr \<Rightarrow> Message \<Rightarrow> world \<Rightarrow> world" where
  "put_msg a m w = w\<lparr>msg_heap := (msg_heap w)(a := m)\<rparr>"

definition put_queue :: "addr \<Rightarrow> Queue \<Rightarrow> world \<Rightarrow> world" where
  "put_queue a q w = w\<lparr>queue_heap := (queue_heap w)(a := q)\<rparr>"

text \<open>Go's \<open>make([]byte, n)\<close> and \<open>copy(dst, src)\<close>: \<open>copy\<close> overwrites the first
  \<open>min (len dst) (len src)\<close> elements of \<open>dst\<close>.\<close>

definition make_bytes :: "nat \<Rightarrow> byte list" where
  "make_bytes n = replicate n 0"

definition go_copy :: "byte list \<Rightarrow> byte list \<Rightarrow> byte list" where
  "go_copy dst src = take (length dst) src @ drop (length src) dst"

subsection \<open>Message\<close>

definition SetMetadata :: "addr \<Rightarrow> string \<Rightarrow> string \<Rightarrow> world \<Rightarrow> world" where
  "SetMetadata m key val w =
     (let w1 = (case Metadata (msg_heap w m) of
                  None \<Rightarrow> (let (a, w') = new_map w
                           in put_msg m ((msg_heap w' m)\<lparr>Metadata := Some a\<rparr>) w')
                | Some _ \<Rightarrow> w)
      in case Metadata (msg_heap w1 m) of
           None \<Rightarrow> w1
         | Some a \<Rightarrow> w1\<lparr>map_heap := (map_heap w1)(a := (map_heap w1 a)(key \<mapsto> val))\<rparr>)"

definition GetMetadata :: "addr \<Rightarrow> string \<Rightarrow> world \<Rightarrow> string" where
  "GetMetadata m key w =
     (case Metadata (msg_heap w m) of
        None \<Rightarrow> ''''
      | Some a \<Rightarrow> (case map_heap w a key of None \<Rightarrow> '''' | Some v \<Rightarrow> v))"

definition Clone :: "addr \<Rightarrow> world \<Rightarrow> addr \<times> world" where
  "Clone m w =
     (let (u, w1) = uuid_New w;
          src = msg_heap w1 m;
          (c, w2) = new_Message
                      \<lparr>ID = u, Type = Type src,
                       Payload = make_bytes (length (Payload src)),
                       Metadata = None, Timestamp = Timestamp src, RetryCount = 0,
                       VisibleAt = 0, ReceiptHandle = ''''\<rparr> w1;
          w3 = put_msg c ((msg_heap w2 c)
                 \<lparr>Payload := go_copy (Payload (msg_heap w2 c)) (Payload (msg_heap w2 m))\<rparr>) w2
      in case Metadata (msg_heap w3 m) of
           None \<Rightarrow> (c, w3)
         | Some ma \<Rightarrow>
             (let (a, w4) = new_map w3;
                  w5 = put_msg c ((msg_heap w4 c)\<lparr>Metadata := Some a\<rparr>) w4
              in (c, w5\<lparr>map_heap := (map_heap w5)(a := map_heap w5 a ++ map_heap w5 ma)\<rparr>)))"

definition IsVisible :: "addr \<Rightarrow> world \<Rightarrow> bool \<times> world" where
  "IsVisible m w =
     (if VisibleAt (msg_heap w m) = 0 then (True, w)
      else (let (t, w') = time_Now w in (VisibleAt (msg_heap w' m) < t, w')))"

text \<open>\<open>Decode\<close> hands the payload bytes to \<open>json.Unmarshal\<close>, which is not part of this
  program: it is a parameter here, with \<open>None\<close> for its error.\<close>

definition Decode :: "(byte list \<Rightarrow> 'v option) \<Rightarrow> addr \<Rightarrow> world \<Rightarrow> 'v option" where
  "Decode unmarshal m w = unmarshal (Payload (msg_heap w m))"

subsection \<open>Queue\<close>


definition remove_at :: "nat \<Rightarrow> 'a list \<Rightarrow> 'a list" where
  "remove_at i xs = take i xs @ drop (Suc i) xs"

definition Enqueue :: "Context \<Rightarrow> addr \<Rightarrow> addr \<Rightarrow> world \<Rightarrow> error option \<times> world" where
  "Enqueue ctx q m w =
     (let w1 = (if ID (msg_heap w m) = ''''
                then (let (u, w') = uuid_New w in put_msg m ((msg_heap w' m)\<lparr>ID := u\<rparr>) w')
                else w);
          w2 = (if Timestamp (msg_heap w1 m) = 0
                then (let (t, w') = time_Now w1 in put_msg m ((msg_heap w' m)\<lparr>Timestamp := t\<rparr>) w')
                else w1);
          Q = queue_heap w2 q;
          ms = messages Q @ [m];
          st = q_stats Q
      in (None,
          put_queue q (Q\<lparr>messages := ms,
                          q_stats := st\<lparr>TotalReceived := TotalReceived st + 1,
                                        CurrentSize := of_nat (length ms)\<rparr>\<rparr>) w2))"

fun Receive_loop :: "time \<Rightarrow> duration \<Rightarrow> addr list \<Rightarrow> world \<Rightarrow> addr option \<times> world" where
  "Receive_loop now vt [] w = (None, w)"
| "Receive_loop now vt (m # ms) w =
     (let (vis, w1) = IsVisible m w
      in if vis
         then (let w2 = put_msg m ((msg_heap w1 m)\<lparr>VisibleAt := now + vt\<rparr>) w1;
                   (h, w3) = uuid_New w2;
                   w4 = put_msg m ((msg_heap w3 m)\<lparr>ReceiptHandle := h\<rparr>) w3;
                   w5 = put_msg m ((msg_heap w4 m)\<lparr>RetryCount := RetryCount (msg_heap w4 m) + 1\<rparr>) w4
               in (Some m, w5))
         else Receive_loop now vt ms w1)"

definition Receive :: "Context \<Rightarrow> addr \<Rightarrow> world \<Rightarrow> (addr option \<times> error option) \<times> world" where
  "Receive ctx q w =
     (let (now, w1) = time_Now w;
          Q = queue_heap w1 q;
          (r, w2) = Receive_loop now (visibilityTimeout Q) (messages Q) w1
      in ((r, None), w2))"






text \<open>\<open>context.Background()\<close> and \<open>context.WithTimeout\<close> of the Go library: the child's
  deadline is the present instant plus the timeout unless the parent's is earlier.\<close>

definition context_Background :: Context where
  "context_Background = \<lparr>deadline = None\<rparr>"



subsection \<open>Topic\<close>

text \<open>One turn of the fan-out loop of \<open>Topic.Publish\<close>, for the topic at address \<open>t\<close>.  The
  error that \<open>Enqueue\<close> returns is only logged.\<close>

definition deliver :: "Context \<Rightarrow> addr \<Rightarrow> addr \<Rightarrow> addr \<Rightarrow> world \<Rightarrow> world" where
  "deliver ctx t msg queue w =
     (let (clone, w1) = Clone msg w;
          w2 = SetMetadata clone ''source_topic'' (t_name (topic_heap w1 t)) w1;
          (u, w3) = uuid_New w2;
          w4 = SetMetadata clone ''delivery_id'' u w3;
          (err, w5) = Enqueue ctx queue clone w4
      in case err of Some e \<Rightarrow> w5 | None \<Rightarrow> w5)"

fun Publish_loop :: "Context \<Rightarrow> addr \<Rightarrow> addr \<Rightarrow> addr list \<Rightarrow> world \<Rightarrow> world" where
  "Publish_loop ctx t msg [] w = w"
| "Publish_loop ctx t msg (queue # rest) w = Publish_loop ctx t msg rest (deliver ctx t msg queue w)"

definition Topic_Publish :: "Context \<Rightarrow> addr \<Rightarrow> addr \<Rightarrow> world \<Rightarrow> error option \<times> world" where
  "Topic_Publish ctx t msg w =
     (let subs = subscribers (topic_heap w t);
          w1 = (if Timestamp (msg_heap w msg) = 0
                then (let (now, w') = time_Now w
                      in put_msg msg ((msg_heap w' msg)\<lparr>Timestamp := now\<rparr>) w')
                else w)
      in (None, Publish_loop ctx t msg subs w1))"

definition addSubscriber :: "addr \<Rightarrow> addr \<Rightarrow> world \<Rightarrow> world" where
  "addSubscriber t queue w =
     w\<lparr>topic_heap := (topic_heap w)
          (t := (topic_heap w t)\<lparr>subscribers := subscribers (topic_heap w t) @ [queue]\<rparr>)\<rparr>"

subsection \<open>Broker\<close>

record BrokerConfig =
  DefaultVisibilityTimeout :: duration
  DefaultMaxRetries :: go_int
  EnableLogging :: bool

record Broker =
  topics :: "string \<rightharpoonup> addr"
  queues :: "string \<rightharpoonup> addr"
  config :: BrokerConfig



definition NewBroker :: "BrokerConfig \<Rightarrow> Broker" where
  "NewBroker cfg = \<lparr>topics = Map.empty, queues = Map.empty, config = cfg\<rparr>"



definition Subscribe :: "string \<Rightarrow> string \<Rightarrow> Broker \<Rightarrow> world \<Rightarrow> error option \<times> world" where
  "Subscribe topicName queueName b w =
     (case topics b topicName of
        None \<Rightarrow> (Some ErrTopicNotFound, w)
      | Some t \<Rightarrow>
          (case queues b queueName of
             None \<Rightarrow> (Some ErrQueueNotFound, w)
           | Some q \<Rightarrow> (None, addSubscriber t q w)))"

definition Broker_Publish :: "Context \<Rightarrow> string \<Rightarrow> addr \<Rightarrow> Broker \<Rightarrow> world \<Rightarrow> error option \<times> world" where
  "Broker_Publish ctx topicName msg b w =
     (case topics b topicName of
        None \<Rightarrow> (Some ErrTopicNotFound, w)
      | Some t \<Rightarrow> Topic_Publish ctx t msg w)"

subsection \<open>Idempotency store and the idempotent worker\<close>


definition IsProcessed :: "addr \<Rightarrow> string \<Rightarrow> world \<Rightarrow> bool \<times> world" where
  "IsProcessed st messageID w =
     (case processed (store_heap w st) messageID of
        None \<Rightarrow> (False, w)
      | Some timestamp \<Rightarrow>
          (let (since, w') = time_Since timestamp w
           in if since > ttl (store_heap w' st) then (False, w') else (True, w')))"

definition MarkProcessed :: "addr \<Rightarrow> string \<Rightarrow> world \<Rightarrow> error option \<times> world" where
  "MarkProcessed st messageID w =
     (let (now, w') = time_Now w;
          S = store_heap w' st
      in (None, w'\<lparr>store_heap := (store_heap w')(st := S\<lparr>processed := (processed S)(messageID \<mapsto> now)\<rparr>)\<rparr>))"

text \<open>The \<open>IdempotencyStore\<close> interface is a pair of methods, and a \<open>MessageHandler\<close> is any
  function of the message pointer: both may read and write the whole store.\<close>

record IdempotencyStore =
  isProcessed :: "string \<Rightarrow> world \<Rightarrow> bool \<times> world"
  markProcessed :: "string \<Rightarrow> world \<Rightarrow> error option \<times> world"

type_synonym MessageHandler = "addr \<Rightarrow> world \<Rightarrow> error option \<times> world"

definition in_memory :: "addr \<Rightarrow> IdempotencyStore" where
  "in_memory st = \<lparr>isProcessed = IsProcessed st, markProcessed = MarkProcessed st\<rparr>"

record WorkerConfig =
  PollInterval :: duration
  Concurrency :: go_int

record WorkerStats =
  MessagesProcessed :: go_int
  MessagesFailed :: go_int
  TotalProcessTime :: duration

record Worker =
  w_name :: string
  w_queue :: addr
  handler :: MessageHandler
  w_config :: WorkerConfig
  w_stats :: WorkerStats
  running :: bool

definition DefaultWorkerConfig :: WorkerConfig where
  "DefaultWorkerConfig = \<lparr>PollInterval = 100000000, Concurrency = 1\<rparr>"

definition NewWorker :: "string \<Rightarrow> addr \<Rightarrow> MessageHandler \<Rightarrow> Worker" where
  "NewWorker name queue h =
     \<lparr>w_name = name, w_queue = queue, handler = h, w_config = DefaultWorkerConfig,
      w_stats = \<lparr>MessagesProcessed = 0, MessagesFailed = 0, TotalProcessTime = 0\<rparr>,
      running = False\<rparr>"

definition wrappedHandler :: "MessageHandler \<Rightarrow> IdempotencyStore \<Rightarrow> MessageHandler" where
  "wrappedHandler h store msg w =
     (let (done, w1) = isProcessed store (ID (msg_heap w msg)) w
      in if done then (None, w1)
         else (let (err, w2) = h msg w1
               in case err of
                    Some e \<Rightarrow> (Some e, w2)
                  | None \<Rightarrow> markProcessed store (ID (msg_heap w2 msg)) w2))"

definition IdempotentWorker :: "string \<Rightarrow> addr \<Rightarrow> MessageHandler \<Rightarrow> IdempotencyStore \<Rightarrow> Worker" where
  "IdempotentWorker name queue h store = NewWorker name queue (wrappedHandler h store)"

section \<open>Notions used in the statements\<close>

text \<open>Go's allocator never hands out an address that is in use.  In the model this is the
  statement that a pointer a caller holds lies below the allocation counter of its heap:
  \<open>msg_allocated\<close> says so for a message and for the map its \<open>Metadata\<close> refers to.\<close>

definition msg_allocated :: "world \<Rightarrow> addr \<Rightarrow> bool" where
  "msg_allocated w m =
     (m < msg_next w \<and> (case Metadata (msg_heap w m) of None \<Rightarrow> True | Some a \<Rightarrow> a < map_next w))"

text \<open>\<open>IsVisible\<close> reads the clock only for a message whose \<open>VisibleAt\<close> is not the zero
  time, so the reading that the \<open>j\<close>-th message of the scan is compared with depends on
  how many messages before it had one.  \<open>visible_when_scanned w ms j\<close> is the outcome of
  \<open>IsVisible\<close> on the \<open>j\<close>-th message of \<open>ms\<close> in a scan that starts in store \<open>w\<close>, and
  \<open>scan_start w\<close> is the store in which the loop of \<open>Receive\<close> starts (after
  \<open>now := time.Now()\<close>).\<close>

definition clock_checks :: "world \<Rightarrow> addr list \<Rightarrow> nat" where
  "clock_checks w ms = length (filter (\<lambda>a. VisibleAt (msg_heap w a) \<noteq> 0) ms)"

definition visible_when_scanned :: "world \<Rightarrow> addr list \<Rightarrow> nat \<Rightarrow> bool" where
  "visible_when_scanned w ms j =
     (VisibleAt (msg_heap w (ms ! j)) = 0 \<or>
      VisibleAt (msg_heap w (ms ! j)) < clock w (clock_reads w + clock_checks w (take j ms)))"

definition scan_start :: "world \<Rightarrow> world" where
  "scan_start w = snd (time_Now w)"

text \<open>The three writes of a successful \<open>Receive\<close>, as one update.\<close>

definition lease :: "time \<Rightarrow> string \<Rightarrow> Message \<Rightarrow> Message" where
  "lease t h m = m\<lparr>VisibleAt := t, ReceiptHandle := h, RetryCount := RetryCount m + 1\<rparr>"







text \<open>The entries of the map a message's \<open>Metadata\<close> refers to (none for the nil map); the
  record of a clone of \<open>m\<close> that has had metadata stamped on it, so that its map is the
  one allocated next; and the map of a dead-letter copy.\<close>

definition source_map :: "world \<Rightarrow> addr \<Rightarrow> (string \<rightharpoonup> string)" where
  "source_map w m = (case Metadata (msg_heap w m) of None \<Rightarrow> Map.empty | Some a \<Rightarrow> map_heap w a)"

definition cloned :: "world \<Rightarrow> addr \<Rightarrow> Message" where
  "cloned w m =
     \<lparr>ID = uuid_gen w (uuid_reads w), Type = Type (msg_heap w m),
      Payload = Payload (msg_heap w m), Metadata = Some (map_next w),
      Timestamp = Timestamp (msg_heap w m), RetryCount = 0, VisibleAt = 0,
      ReceiptHandle = ''''\<rparr>"


text \<open>Two facts about \<open>uuid.New()\<close> that the program relies on and cannot check: its
  results are never the empty string (they are 36 characters long), stated as
  \<open>uuids_nonempty\<close>, and no two of them are equal, stated where it is needed as
  \<open>inj (uuid_gen w)\<close>.  A message is \<open>publishable\<close> when it is a pointer in use and the
  identifiers are not empty.\<close>

definition uuids_nonempty :: "world \<Rightarrow> bool" where
  "uuids_nonempty w = (\<forall>n. uuid_gen w n \<noteq> '''')"

definition publishable :: "world \<Rightarrow> addr \<Rightarrow> bool" where
  "publishable w m = (msg_allocated w m \<and> uuids_nonempty w)"

text \<open>The store in which the fan-out loop of \<open>Topic.Publish\<close> starts: a zero \<open>Timestamp\<close>
  of the published message has been replaced by the present instant.\<close>

definition publish_start :: "addr \<Rightarrow> world \<Rightarrow> world" where
  "publish_start m w =
     (if Timestamp (msg_heap w m) = 0
      then w\<lparr>clock_reads := Suc (clock_reads w),
             msg_heap := (msg_heap w)(m := (msg_heap w m)\<lparr>Timestamp := clock w (clock_reads w)\<rparr>)\<rparr>
      else w)"

text \<open>The record and the map of the clone that one turn of the fan-out loop leaves in
  the store, and the addresses of the clones that a fan-out over the subscriber list
  \<open>subs\<close> appends to queue \<open>q\<close> when the first clone is allocated at address \<open>c\<close>.\<close>

definition delivered :: "world \<Rightarrow> addr \<Rightarrow> Message" where
  "delivered w m =
     (cloned w m)\<lparr>Timestamp := (if Timestamp (msg_heap w m) = 0 then clock w (clock_reads w)
                                 else Timestamp (msg_heap w m))\<rparr>"

definition delivery_map :: "world \<Rightarrow> string \<Rightarrow> addr \<Rightarrow> (string \<rightharpoonup> string)" where
  "delivery_map w tn m =
     (source_map w m)(''source_topic'' \<mapsto> tn,
                      ''delivery_id'' \<mapsto> uuid_gen w (Suc (uuid_reads w)))"

fun deliveries :: "addr \<Rightarrow> addr list \<Rightarrow> addr \<Rightarrow> addr list" where
  "deliveries c [] q = []"
| "deliveries c (s # subs) q = (if s = q then [c] else []) @ deliveries (Suc c) subs q"

section \<open>Concrete stores\<close>

text \<open>A store with nothing allocated, a clock that starts at instant 1000 and advances by
  one nanosecond per reading, and an identifier source whose \<open>n\<close>-th result is \<open>n + 1\<close>
  letters long.  The instances in the next section are built from it.\<close>

definition blank_Message :: Message where
  "blank_Message = \<lparr>ID = '''', Type = '''', Payload = [], Metadata = None, Timestamp = 0,
                    RetryCount = 0, VisibleAt = 0, ReceiptHandle = ''''\<rparr>"

definition blank_Queue :: Queue where
  "blank_Queue = \<lparr>q_name = '''', messages = [], visibilityTimeout = 0, maxRetries = 0,
                  deadLetterQueue = None,
                  q_stats = \<lparr>TotalReceived = 0, TotalProcessed = 0, TotalFailed = 0,
                             CurrentSize = 0\<rparr>\<rparr>"

definition world0 :: world where
  "world0 =
     \<lparr>msg_heap = (\<lambda>_. blank_Message), msg_next = 0,
      map_heap = (\<lambda>_. Map.empty), map_next = 0,
      queue_heap = (\<lambda>_. blank_Queue), queue_next = 0,
      topic_heap = (\<lambda>_. \<lparr>t_name = '''', subscribers = []\<rparr>), topic_next = 0,
      store_heap = (\<lambda>_. \<lparr>processed = Map.empty, ttl = 0\<rparr>), store_next = 0,
      clock = (\<lambda>n. 1000 + int n), clock_reads = 0,
      uuid_gen = (\<lambda>n. replicate (Suc n) CHR ''u''), uuid_reads = 0,
      spawned = []\<rparr>"

text \<open>Message 0 is leased (a deadline in the future and a receipt handle) and carries a
  metadata map.\<close>

definition leased_world :: world where
  "leased_world =
     world0\<lparr>msg_heap := (\<lambda>_. blank_Message)
               (0 := \<lparr>ID = ''m0'', Type = ''order'', Payload = [1, 2, 3], Metadata = Some 0,
                      Timestamp = 900, RetryCount = 1, VisibleAt = 5000,
                      ReceiptHandle = ''h0''\<rparr>),
            msg_next := 1,
            map_heap := (\<lambda>_. Map.empty)(0 := [''order_id'' \<mapsto> ''42'']),
            map_next := 1\<rparr>"

text \<open>\<open>queue_world ms n dlq\<close>: the messages \<open>ms\<close> at addresses \<open>0, 1, \<dots>\<close>, all of them
  in queue 0, in this order; the queue has a visibility timeout of 30 ns, \<open>maxRetries = n\<close>
  and dead-letter queue \<open>dlq\<close>.  Queue 1 is empty.\<close>

definition sample_msg :: "string \<Rightarrow> go_int \<Rightarrow> time \<Rightarrow> string \<Rightarrow> Message" where
  "sample_msg i n v h = \<lparr>ID = i, Type = ''order'', Payload = [1, 2, 3], Metadata = None,
                         Timestamp = 900, RetryCount = n, VisibleAt = v, ReceiptHandle = h\<rparr>"

definition queue_world :: "Message list \<Rightarrow> go_int \<Rightarrow> addr option \<Rightarrow> world" where
  "queue_world ms n dlq =
     world0\<lparr>msg_heap := (\<lambda>a. if a < length ms then ms ! a else blank_Message),
            msg_next := length ms,
            queue_heap := (\<lambda>_. blank_Queue)
               (0 := blank_Queue\<lparr>q_name := ''orders'', messages := [0..<length ms],
                                 visibilityTimeout := 30, maxRetries := n,
                                 deadLetterQueue := dlq\<rparr>,
                1 := blank_Queue\<lparr>q_name := ''orders-dlq''\<rparr>),
            queue_next := 2\<rparr>"

text \<open>A leased head followed by two messages never leased; and a queue whose two
  messages are both leased.\<close>

definition w_a :: world where
  "w_a = queue_world [sample_msg ''a'' 1 5000 ''h0'', sample_msg ''b'' 0 0 '''',
                      sample_msg ''c'' 0 0 ''''] 3 None"

definition w_b :: world where
  "w_b = queue_world [sample_msg ''a'' 1 5000 ''h0'', sample_msg ''b'' 1 6000 ''h1''] 3 None"





text \<open>A topic with two subscriber queues and one message to publish; a context whose
  deadline, instant 0, lies before every reading of the clock.\<close>

definition w_t :: world where
  "w_t =
     world0\<lparr>msg_heap := (\<lambda>_. blank_Message)(0 := sample_msg ''m'' 0 0 ''''),
            msg_next := 1,
            queue_heap := (\<lambda>_. blank_Queue)
               (0 := blank_Queue\<lparr>q_name := ''billing'', maxRetries := 3\<rparr>,
                1 := blank_Queue\<lparr>q_name := ''shipping'', maxRetries := 3\<rparr>),
            queue_next := 2,
            topic_heap := (\<lambda>_. \<lparr>t_name = '''', subscribers = []\<rparr>)
               (0 := \<lparr>t_name = ''orders.created'', subscribers = [0, 1]\<rparr>),
            topic_next := 1\<rparr>"

definition expired_ctx :: Context where
  "expired_ctx = \<lparr>deadline = Some 0\<rparr>"

text \<open>A message that has been leased five times, and an empty queue with
  \<open>maxRetries = 3\<close>.\<close>

definition w_e :: world where
  "w_e =
     world0\<lparr>msg_heap := (\<lambda>_. blank_Message)(0 := sample_msg ''x'' 5 0 ''''),
            msg_next := 1,
            queue_heap := (\<lambda>_. blank_Queue)(0 := blank_Queue\<lparr>q_name := ''orders'', maxRetries := 3\<rparr>),
            queue_next := 1\<rparr>"


text \<open>An idempotency store with a time to live of 100 ns, in which \<open>old\<close> was marked 10 ns
  and \<open>stale\<close> 200 ns before the first reading of the clock; and two handlers that leave
  a trace in the message they are given, one succeeding and one failing.\<close>

definition w_s :: world where
  "w_s =
     world0\<lparr>msg_heap := (\<lambda>_. blank_Message)
               (0 := sample_msg ''old'' 1 5000 ''h0'', 1 := sample_msg ''new'' 1 5000 ''h1''),
            msg_next := 2,
            store_heap := (\<lambda>_. \<lparr>processed = Map.empty, ttl = 0\<rparr>)
               (0 := \<lparr>processed = [''old'' \<mapsto> 990, ''stale'' \<mapsto> 800], ttl = 100\<rparr>),
            store_next := 1\<rparr>"




definition handler_ok :: MessageHandler where
  "handler_ok m w = (None, put_msg m ((msg_heap w m)\<lparr>Type := ''handled''\<rparr>) w)"

definition handler_fail :: MessageHandler where
  "handler_fail m w = (Some ErrMessageNotFound, put_msg m ((msg_heap w m)\<lparr>Type := ''tried''\<rparr>) w)"

section \<open>Properties\<close>

subsection \<open>Message.Clone\<close>

lemma go_copy_make: "go_copy (make_bytes (length xs)) xs = xs"
  by (simp add: go_copy_def make_bytes_def)

text \<open>What \<open>Clone\<close> does to the store when its argument is a pointer in use.\<close>

lemma Clone_eq:
  assumes "m < msg_next w"
  shows "Clone m w =
     (msg_next w,
      w\<lparr>uuid_reads := Suc (uuid_reads w),
        msg_heap := (msg_heap w)
          (msg_next w :=
             \<lparr>ID = uuid_gen w (uuid_reads w), Type = Type (msg_heap w m),
              Payload = Payload (msg_heap w m),
              Metadata = map_option (\<lambda>_. map_next w) (Metadata (msg_heap w m)),
              Timestamp = Timestamp (msg_heap w m), RetryCount = 0, VisibleAt = 0,
              ReceiptHandle = ''''\<rparr>),
        msg_next := Suc (msg_next w),
        map_heap := (case Metadata (msg_heap w m) of
                       None \<Rightarrow> map_heap w
                     | Some ma \<Rightarrow> (map_heap w)(map_next w := Map.empty ++ ((map_heap w)(map_next w := Map.empty)) ma)),
        map_next := (case Metadata (msg_heap w m) of
                       None \<Rightarrow> map_next w
                     | Some _ \<Rightarrow> Suc (map_next w))\<rparr>)"
  using assms
  by (auto simp: Clone_def uuid_New_def new_Message_def put_msg_def new_map_def Let_def
      go_copy_make split: option.splits intro!: world.equality)

text \<open>
  \<^bold>\<open>C10.\<close>  For every message \<open>m\<close>, \<open>Clone\<close> returns a message whose \<open>VisibleAt\<close> is the
  zero time and whose \<open>ReceiptHandle\<close> is the empty string, so the clone passes
  \<open>IsVisible\<close> and holds no lease, whatever the lease state of \<open>m\<close>; the clone is a new
  object, and \<open>Clone\<close> leaves \<open>m\<close> (its record and the map its \<open>Metadata\<close> refers to)
  exactly as it was.
\<close>

theorem Clone_unleased_and_source_untouched:
  assumes "msg_allocated w m" and "Clone m w = (c, w')"
  shows "VisibleAt (msg_heap w' c) = 0 \<and> ReceiptHandle (msg_heap w' c) = '''' \<and>
         fst (IsVisible c w') \<and>
         c \<noteq> m \<and> msg_heap w' m = msg_heap w m \<and>
         (\<forall>a. Metadata (msg_heap w m) = Some a \<longrightarrow>
                Metadata (msg_heap w' c) \<noteq> Some a \<and> map_heap w' a = map_heap w a)"
proof -
  from assms(1) have lt: "m < msg_next w"
    by (simp add: msg_allocated_def)
  from assms(2) have w': "w' = snd (Clone m w)" and "c = fst (Clone m w)"
    by simp_all
  then have c: "c = msg_next w"
    by (simp add: Clone_eq [OF lt])
  have ne: "c \<noteq> m"
    using lt c by simp
  have vis: "VisibleAt (msg_heap w' c) = 0" and rh: "ReceiptHandle (msg_heap w' c) = ''''"
    by (simp_all add: w' c Clone_eq [OF lt])
  have same: "msg_heap w' m = msg_heap w m"
    using lt by (simp add: w' Clone_eq [OF lt])
  have maps: "\<forall>a. Metadata (msg_heap w m) = Some a \<longrightarrow>
                Metadata (msg_heap w' c) \<noteq> Some a \<and> map_heap w' a = map_heap w a"
    using assms(1) by (auto simp: w' c Clone_eq [OF lt] msg_allocated_def)
  from vis have "fst (IsVisible c w')"
    by (simp add: IsVisible_def)
  with vis rh ne same maps show ?thesis
    by blast
qed

text \<open>An instance: the clone of the leased message 0 is unleased and message 0 is as before.\<close>

theorem Clone_unleased_and_source_untouched_witness:
  "msg_allocated leased_world 0 \<and> fst (Clone 0 leased_world) = 1 \<and>
   VisibleAt (msg_heap leased_world 0) = 5000 \<and>
   ReceiptHandle (msg_heap leased_world 0) = ''h0'' \<and>
   VisibleAt (msg_heap (snd (Clone 0 leased_world)) 1) = 0 \<and>
   ReceiptHandle (msg_heap (snd (Clone 0 leased_world)) 1) = '''' \<and>
   msg_heap (snd (Clone 0 leased_world)) 0 = msg_heap leased_world 0 \<and>
   map_heap (snd (Clone 0 leased_world)) 0 = map_heap leased_world 0"
proof -
  have a: "msg_allocated leased_world 0"
    by (simp add: msg_allocated_def leased_world_def world0_def)
  have f: "fst (Clone 0 leased_world) = 1"
    by (simp add: Clone_eq leased_world_def world0_def)
  then have b: "Clone 0 leased_world = (1, snd (Clone 0 leased_world))"
    by (simp add: prod_eq_iff)
  have c: "VisibleAt (msg_heap leased_world 0) = 5000 \<and> ReceiptHandle (msg_heap leased_world 0) = ''h0'' \<and>
           Metadata (msg_heap leased_world 0) = Some 0"
    by (simp add: leased_world_def world0_def)
  from Clone_unleased_and_source_untouched [OF a b] a f c show ?thesis
    by simp
qed

subsection \<open>Searching and cutting a queue's sequence\<close>




lemma length_remove_at: "i < length xs \<Longrightarrow> length (remove_at i xs) = length xs - 1"
  by (simp add: remove_at_def)





subsection \<open>Queue.Enqueue\<close>

lemma Enqueue_eq:
  "Enqueue ctx q m w =
     (None,
      w\<lparr>uuid_reads := (if ID (msg_heap w m) = '''' then Suc (uuid_reads w) else uuid_reads w),
        clock_reads := (if Timestamp (msg_heap w m) = 0 then Suc (clock_reads w) else clock_reads w),
        msg_heap := (msg_heap w)
          (m := (msg_heap w m)
             \<lparr>ID := (if ID (msg_heap w m) = '''' then uuid_gen w (uuid_reads w)
                      else ID (msg_heap w m)),
              Timestamp := (if Timestamp (msg_heap w m) = 0 then clock w (clock_reads w)
                            else Timestamp (msg_heap w m))\<rparr>),
        queue_heap := (queue_heap w)
          (q := (queue_heap w q)
             \<lparr>messages := messages (queue_heap w q) @ [m],
              q_stats := (q_stats (queue_heap w q))
                \<lparr>TotalReceived := TotalReceived (q_stats (queue_heap w q)) + 1,
                 CurrentSize := of_nat (Suc (length (messages (queue_heap w q))))\<rparr>\<rparr>)\<rparr>)"
  by (auto simp: Enqueue_def uuid_New_def time_Now_def put_msg_def put_queue_def Let_def
      intro!: world.equality)

subsection \<open>Queue.Receive\<close>

lemma IsVisible_eq:
  "IsVisible m w =
     (VisibleAt (msg_heap w m) = 0 \<or> VisibleAt (msg_heap w m) < clock w (clock_reads w),
      w\<lparr>clock_reads := clock_reads w + clock_checks w [m]\<rparr>)"
  by (simp add: IsVisible_def time_Now_def clock_checks_def)

lemma Receive_loop_None:
  "\<forall>j<length ms. \<not> visible_when_scanned w ms j \<Longrightarrow>
   Receive_loop now vt ms w = (None, w\<lparr>clock_reads := clock_reads w + clock_checks w ms\<rparr>)"
proof (induction ms arbitrary: w)
  case Nil
  then show ?case by (simp add: clock_checks_def)
next
  case (Cons a ms)
  let ?w1 = "w\<lparr>clock_reads := clock_reads w + clock_checks w [a]\<rparr>"
  from Cons.prems have a: "\<not> visible_when_scanned w (a # ms) 0"
    by auto
  then have nz: "VisibleAt (msg_heap w a) \<noteq> 0"
    and late: "\<not> VisibleAt (msg_heap w a) < clock w (clock_reads w)"
    by (simp_all add: visible_when_scanned_def clock_checks_def)
  have "\<forall>j<length ms. \<not> visible_when_scanned ?w1 ms j"
  proof (intro allI impI)
    fix j assume "j < length ms"
    with Cons.prems have "\<not> visible_when_scanned w (a # ms) (Suc j)" by auto
    then show "\<not> visible_when_scanned ?w1 ms j"
      using nz by (simp add: visible_when_scanned_def clock_checks_def)
  qed
  from Cons.IH [OF this] nz late show ?case
    by (simp add: IsVisible_eq clock_checks_def)
qed

lemma Receive_loop_Some:
  "i < length ms \<Longrightarrow> visible_when_scanned w ms i \<Longrightarrow> \<forall>j<i. \<not> visible_when_scanned w ms j \<Longrightarrow>
   Receive_loop now vt ms w =
     (Some (ms ! i),
      w\<lparr>clock_reads := clock_reads w + clock_checks w (take (Suc i) ms),
        uuid_reads := Suc (uuid_reads w),
        msg_heap := (msg_heap w)
          (ms ! i := lease (now + vt) (uuid_gen w (uuid_reads w)) (msg_heap w (ms ! i)))\<rparr>)"
proof (induction ms arbitrary: w i)
  case Nil
  then show ?case by simp
next
  case (Cons a ms)
  show ?case
  proof (cases i)
    case 0
    with Cons.prems(2) show ?thesis
      by (auto simp: IsVisible_eq visible_when_scanned_def clock_checks_def lease_def
          uuid_New_def put_msg_def intro!: world.equality)
  next
    case (Suc k)
    let ?w1 = "w\<lparr>clock_reads := clock_reads w + clock_checks w [a]\<rparr>"
    from Cons.prems(3) Suc have a: "\<not> visible_when_scanned w (a # ms) 0"
      by auto
    then have nz: "VisibleAt (msg_heap w a) \<noteq> 0"
      and late: "\<not> VisibleAt (msg_heap w a) < clock w (clock_reads w)"
      by (simp_all add: visible_when_scanned_def clock_checks_def)
    have shift: "visible_when_scanned ?w1 ms j = visible_when_scanned w (a # ms) (Suc j)" for j
      using nz by (simp add: visible_when_scanned_def clock_checks_def)
    have k: "k < length ms" using Cons.prems(1) Suc by simp
    have vk: "visible_when_scanned ?w1 ms k" using Cons.prems(2) Suc shift by simp
    have before: "\<forall>j<k. \<not> visible_when_scanned ?w1 ms j"
      using Cons.prems(3) Suc shift by auto
    from Cons.IH [OF k vk before] nz late Suc show ?thesis
      by (simp add: IsVisible_eq clock_checks_def)
  qed
qed


lemma Receive_eq:
  "Receive ctx q w =
     ((fst (Receive_loop (clock w (clock_reads w)) (visibilityTimeout (queue_heap w q))
              (messages (queue_heap w q)) (scan_start w)), None),
      snd (Receive_loop (clock w (clock_reads w)) (visibilityTimeout (queue_heap w q))
              (messages (queue_heap w q)) (scan_start w)))"
  by (simp add: Receive_def scan_start_def time_Now_def split_def Let_def)
lemma scan_start_simps:
  "msg_heap (scan_start w) = msg_heap w" "queue_heap (scan_start w) = queue_heap w"
  "uuid_gen (scan_start w) = uuid_gen w" "uuid_reads (scan_start w) = uuid_reads w"
  "clock (scan_start w) = clock w" "clock_reads (scan_start w) = Suc (clock_reads w)"
  by (simp_all add: scan_start_def time_Now_def)

lemma Receive_found:
  assumes "i < length (messages (queue_heap w q))"
    and "visible_when_scanned (scan_start w) (messages (queue_heap w q)) i"
    and "\<forall>j<i. \<not> visible_when_scanned (scan_start w) (messages (queue_heap w q)) j"
  shows "Receive ctx q w =
     ((Some (messages (queue_heap w q) ! i), None),
      w\<lparr>clock_reads := Suc (clock_reads w) +
                          clock_checks w (take (Suc i) (messages (queue_heap w q))),
        uuid_reads := Suc (uuid_reads w),
        msg_heap := (msg_heap w)
          (messages (queue_heap w q) ! i :=
             lease (clock w (clock_reads w) + visibilityTimeout (queue_heap w q))
               (uuid_gen w (uuid_reads w)) (msg_heap w (messages (queue_heap w q) ! i)))\<rparr>)"
proof -
  have cc: "clock_checks (scan_start w) xs = clock_checks w xs" for xs
    by (simp add: clock_checks_def scan_start_simps)
  from Receive_loop_Some [OF assms, of "clock w (clock_reads w)" "visibilityTimeout (queue_heap w q)"]
  show ?thesis
    by (simp add: Receive_eq scan_start_simps cc) (simp add: scan_start_def time_Now_def)
qed

lemma Receive_nothing:
  assumes "\<forall>j<length (messages (queue_heap w q)).
             \<not> visible_when_scanned (scan_start w) (messages (queue_heap w q)) j"
  shows "Receive ctx q w =
     ((None, None),
      w\<lparr>clock_reads := Suc (clock_reads w) + clock_checks w (messages (queue_heap w q))\<rparr>)"
proof -
  have cc: "clock_checks (scan_start w) xs = clock_checks w xs" for xs
    by (simp add: clock_checks_def scan_start_simps)
  from Receive_loop_None [OF assms, of "clock w (clock_reads w)" "visibilityTimeout (queue_heap w q)"]
  show ?thesis
    by (simp add: Receive_eq scan_start_simps cc) (simp add: scan_start_def time_Now_def)
qed

text \<open>
  \<^bold>\<open>C1.\<close>  \<open>Receive\<close> returns the first message, in the order of the queue's sequence, for
  which \<open>IsVisible\<close> answers true when the scan reaches it; messages before it that are
  not visible do not block it.  That message gets \<open>VisibleAt\<close> set to the instant read at
  the start of \<open>Receive\<close> plus the queue's \<open>visibilityTimeout\<close>, the next unused
  identifier as its \<open>ReceiptHandle\<close>, and \<open>RetryCount\<close> plus one (as a Go \<open>int\<close>); no
  other message and no queue changes.  When no message is visible, \<open>Receive\<close> returns no
  message and no error, and leaves every message and every queue as it was.
\<close>

theorem Receive_leases_first_visible:
  "(i < length (messages (queue_heap w q)) \<and>
    visible_when_scanned (scan_start w) (messages (queue_heap w q)) i \<and>
    (\<forall>j<i. \<not> visible_when_scanned (scan_start w) (messages (queue_heap w q)) j) \<longrightarrow>
      fst (Receive ctx q w) = (Some (messages (queue_heap w q) ! i), None) \<and>
      msg_heap (snd (Receive ctx q w)) =
        (msg_heap w)(messages (queue_heap w q) ! i :=
           (msg_heap w (messages (queue_heap w q) ! i))
             \<lparr>VisibleAt := clock w (clock_reads w) + visibilityTimeout (queue_heap w q),
              ReceiptHandle := uuid_gen w (uuid_reads w),
              RetryCount := RetryCount (msg_heap w (messages (queue_heap w q) ! i)) + 1\<rparr>) \<and>
      uuid_reads (snd (Receive ctx q w)) = Suc (uuid_reads w) \<and>
      queue_heap (snd (Receive ctx q w)) = queue_heap w) \<and>
   ((\<forall>j<length (messages (queue_heap w q)).
        \<not> visible_when_scanned (scan_start w) (messages (queue_heap w q)) j) \<longrightarrow>
      fst (Receive ctx q w) = (None, None) \<and>
      msg_heap (snd (Receive ctx q w)) = msg_heap w \<and>
      queue_heap (snd (Receive ctx q w)) = queue_heap w)"
proof (intro conjI impI)
  assume h: "i < length (messages (queue_heap w q)) \<and>
    visible_when_scanned (scan_start w) (messages (queue_heap w q)) i \<and>
    (\<forall>j<i. \<not> visible_when_scanned (scan_start w) (messages (queue_heap w q)) j)"
  then have found: "Receive ctx q w =
     ((Some (messages (queue_heap w q) ! i), None),
      w\<lparr>clock_reads := Suc (clock_reads w) +
                          clock_checks w (take (Suc i) (messages (queue_heap w q))),
        uuid_reads := Suc (uuid_reads w),
        msg_heap := (msg_heap w)
          (messages (queue_heap w q) ! i :=
             lease (clock w (clock_reads w) + visibilityTimeout (queue_heap w q))
               (uuid_gen w (uuid_reads w)) (msg_heap w (messages (queue_heap w q) ! i)))\<rparr>)"
    by (intro Receive_found) simp_all
  show "fst (Receive ctx q w) = (Some (messages (queue_heap w q) ! i), None)"
    by (simp add: found)
  show "msg_heap (snd (Receive ctx q w)) =
        (msg_heap w)(messages (queue_heap w q) ! i :=
           (msg_heap w (messages (queue_heap w q) ! i))
             \<lparr>VisibleAt := clock w (clock_reads w) + visibilityTimeout (queue_heap w q),
              ReceiptHandle := uuid_gen w (uuid_reads w),
              RetryCount := RetryCount (msg_heap w (messages (queue_heap w q) ! i)) + 1\<rparr>)"
    by (simp add: found lease_def)
  show "uuid_reads (snd (Receive ctx q w)) = Suc (uuid_reads w)"
    by (simp add: found)
  show "queue_heap (snd (Receive ctx q w)) = queue_heap w"
    by (simp add: found)
next
  assume h: "\<forall>j<length (messages (queue_heap w q)).
        \<not> visible_when_scanned (scan_start w) (messages (queue_heap w q)) j"
  note none = Receive_nothing [OF h, of ctx]
  show "fst (Receive ctx q w) = (None, None)"
    by (simp add: none)
  show "msg_heap (snd (Receive ctx q w)) = msg_heap w"
    by (simp add: none)
  show "queue_heap (snd (Receive ctx q w)) = queue_heap w"
    by (simp add: none)
qed

text \<open>Instances.  In \<open>w_a\<close> the head of the queue is leased until instant 5000 and the
  clock reads 1000: \<open>Receive\<close> passes over it and leases message 1.  In \<open>w_b\<close> both
  messages are leased and \<open>Receive\<close> returns nothing.\<close>

lemma w_a_messages: "messages (queue_heap w_a 0) = [0, 1, 2]"
  by (simp add: w_a_def queue_world_def world0_def upt_rec)

lemma w_b_messages: "messages (queue_heap w_b 0) = [0, 1]"
  by (simp add: w_b_def queue_world_def world0_def upt_rec)

lemma w_a_scan:
  "\<not> visible_when_scanned (scan_start w_a) (messages (queue_heap w_a 0)) 0"
  "visible_when_scanned (scan_start w_a) (messages (queue_heap w_a 0)) 1"
  by (simp_all add: w_a_messages visible_when_scanned_def scan_start_simps clock_checks_def)
     (simp_all add: w_a_def queue_world_def world0_def sample_msg_def)

lemma w_b_scan:
  "\<forall>j<length (messages (queue_heap w_b 0)).
      \<not> visible_when_scanned (scan_start w_b) (messages (queue_heap w_b 0)) j"
  by (simp add: w_b_messages visible_when_scanned_def scan_start_simps clock_checks_def
        less_Suc_eq)
     (simp add: w_b_def queue_world_def world0_def sample_msg_def)

lemma w_a_values:
  "msg_heap w_a 0 = sample_msg ''a'' 1 5000 ''h0''"
  "msg_heap w_a (Suc 0) = sample_msg ''b'' 0 0 ''''"
  "msg_heap w_a 2 = sample_msg ''c'' 0 0 ''''"
  "clock w_a (clock_reads w_a) = 1000"
  "visibilityTimeout (queue_heap w_a 0) = 30" "uuid_gen w_a (uuid_reads w_a) = ''u''"
  by (simp_all add: w_a_def queue_world_def world0_def)

theorem Receive_leases_first_visible_witness:
  "\<not> visible_when_scanned (scan_start w_a) (messages (queue_heap w_a 0)) 0 \<and>
   visible_when_scanned (scan_start w_a) (messages (queue_heap w_a 0)) 1 \<and>
   fst (Receive context_Background 0 w_a) = (Some 1, None) \<and>
   msg_heap (snd (Receive context_Background 0 w_a)) 1 = sample_msg ''b'' 1 1030 ''u'' \<and>
   msg_heap (snd (Receive context_Background 0 w_a)) 0 = msg_heap w_a 0 \<and>
   \<not> visible_when_scanned (scan_start w_b) (messages (queue_heap w_b 0)) 0 \<and>
   \<not> visible_when_scanned (scan_start w_b) (messages (queue_heap w_b 0)) 1 \<and>
   fst (Receive context_Background 0 w_b) = (None, None) \<and>
   msg_heap (snd (Receive context_Background 0 w_b)) = msg_heap w_b"
proof -
  from w_a_scan have "1 < length (messages (queue_heap w_a 0)) \<and>
      visible_when_scanned (scan_start w_a) (messages (queue_heap w_a 0)) 1 \<and>
      (\<forall>j<1. \<not> visible_when_scanned (scan_start w_a) (messages (queue_heap w_a 0)) j)"
    by (simp add: w_a_messages)
  with Receive_leases_first_visible [of 1 w_a 0 context_Background]
  have "fst (Receive context_Background 0 w_a) = (Some 1, None) \<and>
        msg_heap (snd (Receive context_Background 0 w_a)) 1 = sample_msg ''b'' 1 1030 ''u'' \<and>
        msg_heap (snd (Receive context_Background 0 w_a)) 0 = msg_heap w_a 0"
    by (simp add: w_a_messages w_a_values sample_msg_def)
  moreover from w_b_scan Receive_leases_first_visible [of 0 w_b 0 context_Background]
  have "fst (Receive context_Background 0 w_b) = (None, None) \<and>
        msg_heap (snd (Receive context_Background 0 w_b)) = msg_heap w_b"
    by simp
  moreover from w_b_scan
  have "\<not> visible_when_scanned (scan_start w_b) (messages (queue_heap w_b 0)) 0 \<and>
        \<not> visible_when_scanned (scan_start w_b) (messages (queue_heap w_b 0)) 1"
    by (simp add: w_b_messages)
  ultimately show ?thesis
    using w_a_scan by simp
qed

subsection \<open>Queue.Acknowledge\<close>

















subsection \<open>Queue.Nack and the dead-letter transition\<close>

lemma SetMetadata_Some:
  "Metadata (msg_heap w m) = Some a \<Longrightarrow>
   SetMetadata m k v w = w\<lparr>map_heap := (map_heap w)(a := (map_heap w a)(k \<mapsto> v))\<rparr>"
  by (simp add: SetMetadata_def)

lemma SetMetadata_None:
  "Metadata (msg_heap w m) = None \<Longrightarrow>
   SetMetadata m k v w =
     w\<lparr>msg_heap := (msg_heap w)(m := (msg_heap w m)\<lparr>Metadata := Some (map_next w)\<rparr>),
       map_heap := (map_heap w)(map_next w := [k \<mapsto> v]),
       map_next := Suc (map_next w)\<rparr>"
  by (simp add: SetMetadata_def new_map_def put_msg_def)

text \<open>A clone with one metadata entry stamped on it: whether or not the source has a
  map, the clone's map is the new one at \<open>map_next w\<close>.\<close>

lemma Clone_SetMetadata:
  assumes "msg_allocated w m"
  shows "SetMetadata (fst (Clone m w)) k v (snd (Clone m w)) =
     w\<lparr>uuid_reads := Suc (uuid_reads w),
       msg_heap := (msg_heap w)(msg_next w := cloned w m),
       msg_next := Suc (msg_next w),
       map_heap := (map_heap w)(map_next w := (source_map w m)(k \<mapsto> v)),
       map_next := Suc (map_next w)\<rparr>"
proof -
  from assms have lt: "m < msg_next w"
    by (simp add: msg_allocated_def)
  show ?thesis
  proof (cases "Metadata (msg_heap w m)")
    case None
    then show ?thesis
      by (simp add: Clone_eq [OF lt] SetMetadata_None cloned_def source_map_def)
  next
    case (Some a)
    with assms have "a \<noteq> map_next w"
      by (simp add: msg_allocated_def)
    with Some show ?thesis
      by (simp add: Clone_eq [OF lt] SetMetadata_Some cloned_def source_map_def)
  qed
qed
























subsection \<open>Topic.Publish\<close>

text \<open>One turn of the fan-out loop, for a publishable message: a clone at the next free
  address, its map at the next free map address, two identifiers consumed, and the clone
  appended to the subscriber's sequence.\<close>

lemma deliver_eq:
  assumes "msg_allocated w m" and "uuid_gen w (uuid_reads w) \<noteq> ''''"
  shows "deliver ctx t m q w =
     w\<lparr>uuid_reads := Suc (Suc (uuid_reads w)),
       clock_reads := (if Timestamp (msg_heap w m) = 0 then Suc (clock_reads w) else clock_reads w),
       msg_heap := (msg_heap w)(msg_next w := delivered w m),
       msg_next := Suc (msg_next w),
       map_heap := (map_heap w)(map_next w := delivery_map w (t_name (topic_heap w t)) m),
       map_next := Suc (map_next w),
       queue_heap := (queue_heap w)
          (q := (queue_heap w q)
             \<lparr>messages := messages (queue_heap w q) @ [msg_next w],
              q_stats := (q_stats (queue_heap w q))
                \<lparr>TotalReceived := TotalReceived (q_stats (queue_heap w q)) + 1,
                 CurrentSize := of_nat (Suc (length (messages (queue_heap w q))))\<rparr>\<rparr>)\<rparr>"
proof -
  let ?c = "msg_next w"
  define w1 where "w1 = snd (Clone m w)"
  define w2 where "w2 = SetMetadata ?c ''source_topic'' (t_name (topic_heap w1 t)) w1"
  define w3 where "w3 = snd (uuid_New w2)"
  define w4 where "w4 = SetMetadata ?c ''delivery_id'' (fst (uuid_New w2)) w3"
  define w5 where "w5 = snd (Enqueue ctx q ?c w4)"
  from assms(1) have lt: "m < msg_next w"
    by (simp add: msg_allocated_def)
  have c: "fst (Clone m w) = ?c"
    by (simp add: Clone_eq [OF lt])
  then have cl: "Clone m w = (?c, w1)"
    by (simp add: w1_def prod_eq_iff)
  have dv: "deliver ctx t m q w = w5"
    by (simp add: deliver_def cl split_def Let_def w5_def w4_def w3_def w2_def
        split: option.splits)
  have e2: "w2 =
     w\<lparr>uuid_reads := Suc (uuid_reads w),
       msg_heap := (msg_heap w)(msg_next w := cloned w m),
       msg_next := Suc (msg_next w),
       map_heap := (map_heap w)(map_next w := (source_map w m)(''source_topic'' \<mapsto> t_name (topic_heap w t))),
       map_next := Suc (map_next w)\<rparr>"
    unfolding w2_def w1_def
    using Clone_SetMetadata [OF assms(1), of "''source_topic''" "t_name (topic_heap w t)"]
    by (simp add: c Clone_eq [OF lt])
  have u: "fst (uuid_New w2) = uuid_gen w (Suc (uuid_reads w))"
    by (simp add: uuid_New_def e2)
  have e3: "w3 = w2\<lparr>uuid_reads := Suc (Suc (uuid_reads w))\<rparr>"
    by (simp add: w3_def uuid_New_def e2)
  have m3: "Metadata (msg_heap w3 ?c) = Some (map_next w)"
    by (simp add: e3 e2 cloned_def)
  have e4: "w4 =
     w\<lparr>uuid_reads := Suc (Suc (uuid_reads w)),
       msg_heap := (msg_heap w)(msg_next w := cloned w m),
       msg_next := Suc (msg_next w),
       map_heap := (map_heap w)(map_next w := delivery_map w (t_name (topic_heap w t)) m),
       map_next := Suc (map_next w)\<rparr>"
    unfolding w4_def SetMetadata_Some [OF m3] u
    by (simp add: e3 e2 delivery_map_def)
  have id4: "ID (msg_heap w4 ?c) \<noteq> ''''" and ts4: "Timestamp (msg_heap w4 ?c) = Timestamp (msg_heap w m)"
    using assms(2) by (simp_all add: e4 cloned_def)
  show ?thesis
    unfolding dv w5_def Enqueue_eq
    using id4 ts4
    by (simp add: e4 delivered_def cloned_def)
qed

lemma deliver_simps:
  assumes "publishable w m"
  shows "msg_next (deliver ctx t m q w) = Suc (msg_next w)"
    and "map_next (deliver ctx t m q w) = Suc (map_next w)"
    and "uuid_reads (deliver ctx t m q w) = Suc (Suc (uuid_reads w))"
    and "uuid_gen (deliver ctx t m q w) = uuid_gen w"
    and "topic_heap (deliver ctx t m q w) = topic_heap w"
    and "msg_heap (deliver ctx t m q w) = (msg_heap w)(msg_next w := delivered w m)"
    and "map_heap (deliver ctx t m q w) = (map_heap w)(map_next w := delivery_map w (t_name (topic_heap w t)) m)"
    and "messages (queue_heap (deliver ctx t m q w) q') =
           messages (queue_heap w q') @ (if q = q' then [msg_next w] else [])"
  using assms
  by (simp_all add: publishable_def uuids_nonempty_def deliver_eq)

lemma deliver_publishable:
  assumes "publishable w m"
  shows "publishable (deliver ctx t m q w) m"
    and "msg_heap (deliver ctx t m q w) m = msg_heap w m"
    and "source_map (deliver ctx t m q w) m = source_map w m"
proof -
  from assms have lt: "m < msg_next w"
    and mp: "case Metadata (msg_heap w m) of None \<Rightarrow> True | Some a \<Rightarrow> a < map_next w"
    and ne: "uuids_nonempty w"
    by (simp_all add: publishable_def msg_allocated_def)
  from lt show same: "msg_heap (deliver ctx t m q w) m = msg_heap w m"
    by (simp add: deliver_simps [OF assms])
  show "source_map (deliver ctx t m q w) m = source_map w m"
  proof (cases "Metadata (msg_heap w m)")
    case None
    then show ?thesis
      by (simp add: source_map_def same)
  next
    case (Some a)
    with mp have "a \<noteq> map_next w"
      by simp
    with Some show ?thesis
      by (simp add: source_map_def same deliver_simps(7) [OF assms])
  qed
  have "case Metadata (msg_heap w m) of None \<Rightarrow> True | Some a \<Rightarrow> a < Suc (map_next w)"
    using mp by (simp split: option.splits)
  with lt ne show "publishable (deliver ctx t m q w) m"
    by (simp add: publishable_def msg_allocated_def uuids_nonempty_def same
        deliver_simps(1,2,4) [OF assms] cong: option.case_cong)
qed

text \<open>The loop, by induction on the subscriber list: the counters advance by one clone
  per subscriber, what was allocated before is not written, each queue receives the
  clones made for it, and the \<open>k\<close>-th clone is as \<open>Clone\<close> and the two \<open>SetMetadata\<close>
  calls left it.\<close>

lemma Publish_loop_counters:
  "publishable w m \<Longrightarrow>
   publishable (Publish_loop ctx t m subs w) m \<and>
   msg_next (Publish_loop ctx t m subs w) = msg_next w + length subs \<and>
   map_next (Publish_loop ctx t m subs w) = map_next w + length subs \<and>
   uuid_reads (Publish_loop ctx t m subs w) = uuid_reads w + 2 * length subs \<and>
   uuid_gen (Publish_loop ctx t m subs w) = uuid_gen w \<and>
   topic_heap (Publish_loop ctx t m subs w) = topic_heap w"
proof (induction subs arbitrary: w)
  case Nil
  then show ?case by simp
next
  case (Cons q subs)
  from Cons.IH [OF deliver_publishable(1) [OF Cons.prems, of ctx t q]]
  show ?case
    by (simp add: deliver_simps [OF Cons.prems])
qed

lemma Publish_loop_frame:
  "publishable w m \<Longrightarrow>
   (\<forall>x<msg_next w. msg_heap (Publish_loop ctx t m subs w) x = msg_heap w x) \<and>
   (\<forall>a<map_next w. map_heap (Publish_loop ctx t m subs w) a = map_heap w a)"
proof (induction subs arbitrary: w)
  case Nil
  then show ?case by simp
next
  case (Cons q subs)
  from Cons.IH [OF deliver_publishable(1) [OF Cons.prems, of ctx t q]]
  show ?case
    by (simp add: deliver_simps [OF Cons.prems])
qed

lemma Publish_loop_messages:
  "publishable w m \<Longrightarrow>
   messages (queue_heap (Publish_loop ctx t m subs w) q') =
     messages (queue_heap w q') @ deliveries (msg_next w) subs q'"
proof (induction subs arbitrary: w)
  case Nil
  then show ?case by simp
next
  case (Cons q subs)
  from Cons.IH [OF deliver_publishable(1) [OF Cons.prems, of ctx t q]]
  show ?case
    by (simp add: deliver_simps [OF Cons.prems])
qed

lemma Publish_loop_clone:
  "publishable w m \<Longrightarrow> k < length subs \<Longrightarrow>
   ID (msg_heap (Publish_loop ctx t m subs w) (msg_next w + k)) = uuid_gen w (uuid_reads w + 2 * k) \<and>
   Type (msg_heap (Publish_loop ctx t m subs w) (msg_next w + k)) = Type (msg_heap w m) \<and>
   Payload (msg_heap (Publish_loop ctx t m subs w) (msg_next w + k)) = Payload (msg_heap w m) \<and>
   RetryCount (msg_heap (Publish_loop ctx t m subs w) (msg_next w + k)) = 0 \<and>
   VisibleAt (msg_heap (Publish_loop ctx t m subs w) (msg_next w + k)) = 0 \<and>
   ReceiptHandle (msg_heap (Publish_loop ctx t m subs w) (msg_next w + k)) = '''' \<and>
   Metadata (msg_heap (Publish_loop ctx t m subs w) (msg_next w + k)) = Some (map_next w + k) \<and>
   map_heap (Publish_loop ctx t m subs w) (map_next w + k) =
     (source_map w m)(''source_topic'' \<mapsto> t_name (topic_heap w t),
                      ''delivery_id'' \<mapsto> uuid_gen w (uuid_reads w + 2 * k + 1))"
proof (induction subs arbitrary: w k)
  case Nil
  then show ?case by simp
next
  case (Cons q subs)
  let ?w1 = "deliver ctx t m q w"
  note p1 = deliver_publishable [OF Cons.prems(1), of ctx t q]
  note d = deliver_simps [OF Cons.prems(1), of ctx t q]
  show ?case
  proof (cases k)
    case 0
    have "msg_next w < msg_next ?w1" "map_next w < map_next ?w1"
      by (simp_all add: d)
    with Publish_loop_frame [OF p1(1), of ctx t subs]
    have "msg_heap (Publish_loop ctx t m subs ?w1) (msg_next w) = msg_heap ?w1 (msg_next w)"
      and "map_heap (Publish_loop ctx t m subs ?w1) (map_next w) = map_heap ?w1 (map_next w)"
      by simp_all
    with 0 show ?thesis
      by (simp add: d delivered_def cloned_def delivery_map_def) (simp add: fun_eq_iff)
  next
    case (Suc j)
    with Cons.prems(2) have j: "j < length subs"
      by simp
    from Cons.IH [OF p1(1) j] Suc show ?thesis
      by (simp add: d(1-5) p1(2,3))
  qed
qed

lemma length_deliveries: "length (deliveries c subs q) = count_list subs q"
  by (induction subs arbitrary: c) simp_all

lemma deliveries_nth: "k < length subs \<Longrightarrow> c + k \<in> set (deliveries c subs (subs ! k))"
proof (induction subs arbitrary: c k)
  case Nil
  then show ?case by simp
next
  case (Cons s subs)
  show ?case
  proof (cases k)
    case 0
    then show ?thesis by simp
  next
    case (Suc j)
    with Cons.prems have "j < length subs" by simp
    from Cons.IH [OF this, of "Suc c"] Suc show ?thesis by simp
  qed
qed

lemma Topic_Publish_eq:
  "Topic_Publish ctx t m w =
     (None, Publish_loop ctx t m (subscribers (topic_heap w t)) (publish_start m w))"
  by (simp add: Topic_Publish_def publish_start_def time_Now_def put_msg_def Let_def)

lemma publish_start_simps:
  "msg_next (publish_start m w) = msg_next w"
  "map_next (publish_start m w) = map_next w"
  "map_heap (publish_start m w) = map_heap w"
  "queue_heap (publish_start m w) = queue_heap w"
  "topic_heap (publish_start m w) = topic_heap w"
  "uuid_gen (publish_start m w) = uuid_gen w"
  "uuid_reads (publish_start m w) = uuid_reads w"
  "Payload (msg_heap (publish_start m w) x) = Payload (msg_heap w x)"
  "Type (msg_heap (publish_start m w) x) = Type (msg_heap w x)"
  "Metadata (msg_heap (publish_start m w) x) = Metadata (msg_heap w x)"
  by (simp_all add: publish_start_def)

lemma publish_start_publishable:
  "publishable w m \<Longrightarrow> publishable (publish_start m w) m"
  "source_map (publish_start m w) m = source_map w m"
  by (simp_all add: publishable_def msg_allocated_def uuids_nonempty_def source_map_def
      publish_start_simps cong: option.case_cong)

lemma GetMetadata_at:
  "Metadata (msg_heap w c) = Some a \<Longrightarrow> map_heap w a k = Some v \<Longrightarrow> GetMetadata c k w = v"
  by (simp add: GetMetadata_def)

text \<open>
  \<^bold>\<open>C4.\<close>  \<open>Topic.Publish\<close> returns no error, whatever happens in the loop (the error of
  \<open>Enqueue\<close> is dropped, and \<open>Enqueue\<close> as written never returns one).  For a publishable
  message and a topic with \<open>N\<close> entries in its subscriber list, it allocates exactly \<open>N\<close>
  new messages, at addresses \<open>msg_next w + k\<close> for \<open>k < N\<close>, and appends the \<open>k\<close>-th of
  them to the sequence of the \<open>k\<close>-th subscriber and to no other: every queue grows by
  as many messages as it has entries in the list.  The \<open>k\<close>-th clone has the next unused
  identifier as \<open>ID\<close>, the payload of the original (so \<open>Decode\<close> gives the same on
  both), a metadata map of its own with \<open>source_topic\<close> the topic's name and
  \<open>delivery_id\<close> the identifier issued after its \<open>ID\<close>.  When no two identifiers of
  \<open>uuid.New()\<close> are equal, the clones have pairwise distinct \<open>ID\<close>s.
\<close>

theorem Topic_Publish_fans_out:
  "fst (Topic_Publish ctx t m w) = None \<and>
   (publishable w m \<longrightarrow>
      msg_next (snd (Topic_Publish ctx t m w)) = msg_next w + length (subscribers (topic_heap w t)) \<and>
      (\<forall>q. messages (queue_heap (snd (Topic_Publish ctx t m w)) q) =
             messages (queue_heap w q) @ deliveries (msg_next w) (subscribers (topic_heap w t)) q) \<and>
      (\<forall>q. length (messages (queue_heap (snd (Topic_Publish ctx t m w)) q)) =
             length (messages (queue_heap w q)) + count_list (subscribers (topic_heap w t)) q) \<and>
      (\<forall>k<length (subscribers (topic_heap w t)).
          msg_next w + k \<in>
            set (messages (queue_heap (snd (Topic_Publish ctx t m w))
                   (subscribers (topic_heap w t) ! k))) \<and>
          ID (msg_heap (snd (Topic_Publish ctx t m w)) (msg_next w + k)) =
            uuid_gen w (uuid_reads w + 2 * k) \<and>
          Payload (msg_heap (snd (Topic_Publish ctx t m w)) (msg_next w + k)) =
            Payload (msg_heap w m) \<and>
          Decode unmarshal (msg_next w + k) (snd (Topic_Publish ctx t m w)) =
            Decode unmarshal m w \<and>
          Metadata (msg_heap (snd (Topic_Publish ctx t m w)) (msg_next w + k)) =
            Some (map_next w + k) \<and>
          GetMetadata (msg_next w + k) ''source_topic'' (snd (Topic_Publish ctx t m w)) =
            t_name (topic_heap w t) \<and>
          GetMetadata (msg_next w + k) ''delivery_id'' (snd (Topic_Publish ctx t m w)) =
            uuid_gen w (uuid_reads w + 2 * k + 1)) \<and>
      (inj (uuid_gen w) \<longrightarrow>
         (\<forall>j<length (subscribers (topic_heap w t)).
          \<forall>k<length (subscribers (topic_heap w t)).
            j \<noteq> k \<longrightarrow>
            ID (msg_heap (snd (Topic_Publish ctx t m w)) (msg_next w + j)) \<noteq>
            ID (msg_heap (snd (Topic_Publish ctx t m w)) (msg_next w + k)))))"
proof (intro conjI impI)
  show "fst (Topic_Publish ctx t m w) = None"
    by (simp add: Topic_Publish_eq)
next
  let ?subs = "subscribers (topic_heap w t)"
  let ?w0 = "publish_start m w"
  let ?w' = "snd (Topic_Publish ctx t m w)"
  assume p: "publishable w m"
  then have p0: "publishable ?w0 m"
    by (rule publish_start_publishable)
  have w': "?w' = Publish_loop ctx t m ?subs ?w0"
    by (simp add: Topic_Publish_eq)
  note counters = Publish_loop_counters [OF p0, of ctx t ?subs]
  note msgs = Publish_loop_messages [OF p0, of ctx t ?subs]
  note clone = Publish_loop_clone [OF p0, of _ ?subs ctx t]
  show "msg_next ?w' = msg_next w + length ?subs"
    using counters by (simp add: w' publish_start_simps)
  show all: "\<forall>q. messages (queue_heap ?w' q) =
             messages (queue_heap w q) @ deliveries (msg_next w) ?subs q"
    using msgs by (simp add: w' publish_start_simps)
  then show "\<forall>q. length (messages (queue_heap ?w' q)) =
             length (messages (queue_heap w q)) + count_list ?subs q"
    by (simp add: length_deliveries)
  have ids: "ID (msg_heap ?w' (msg_next w + k)) = uuid_gen w (uuid_reads w + 2 * k)"
    if "k < length ?subs" for k
    using clone [OF that] by (simp add: w' publish_start_simps)
  show "\<forall>k<length ?subs.
          msg_next w + k \<in> set (messages (queue_heap ?w' (?subs ! k))) \<and>
          ID (msg_heap ?w' (msg_next w + k)) = uuid_gen w (uuid_reads w + 2 * k) \<and>
          Payload (msg_heap ?w' (msg_next w + k)) = Payload (msg_heap w m) \<and>
          Decode unmarshal (msg_next w + k) ?w' = Decode unmarshal m w \<and>
          Metadata (msg_heap ?w' (msg_next w + k)) = Some (map_next w + k) \<and>
          GetMetadata (msg_next w + k) ''source_topic'' ?w' = t_name (topic_heap w t) \<and>
          GetMetadata (msg_next w + k) ''delivery_id'' ?w' =
            uuid_gen w (uuid_reads w + 2 * k + 1)"
  proof (intro allI impI)
    fix k assume k: "k < length ?subs"
    from clone [OF k]
    have pl: "Payload (msg_heap ?w' (msg_next w + k)) = Payload (msg_heap w m)"
      and md: "Metadata (msg_heap ?w' (msg_next w + k)) = Some (map_next w + k)"
      and mp: "map_heap ?w' (map_next w + k) =
                 (source_map w m)(''source_topic'' \<mapsto> t_name (topic_heap w t),
                                  ''delivery_id'' \<mapsto> uuid_gen w (uuid_reads w + 2 * k + 1))"
      by (simp_all add: w' publish_start_simps publish_start_publishable)
    have "msg_next w + k \<in> set (messages (queue_heap ?w' (?subs ! k)))"
      using deliveries_nth [OF k, of "msg_next w"] all by simp
    moreover have "Decode unmarshal (msg_next w + k) ?w' = Decode unmarshal m w"
      by (simp add: Decode_def pl)
    moreover have "GetMetadata (msg_next w + k) ''source_topic'' ?w' = t_name (topic_heap w t)"
      using md by (rule GetMetadata_at) (simp add: mp)
    moreover have "GetMetadata (msg_next w + k) ''delivery_id'' ?w' =
            uuid_gen w (uuid_reads w + 2 * k + 1)"
      using md by (rule GetMetadata_at) (simp add: mp)
    ultimately show "msg_next w + k \<in> set (messages (queue_heap ?w' (?subs ! k))) \<and>
          ID (msg_heap ?w' (msg_next w + k)) = uuid_gen w (uuid_reads w + 2 * k) \<and>
          Payload (msg_heap ?w' (msg_next w + k)) = Payload (msg_heap w m) \<and>
          Decode unmarshal (msg_next w + k) ?w' = Decode unmarshal m w \<and>
          Metadata (msg_heap ?w' (msg_next w + k)) = Some (map_next w + k) \<and>
          GetMetadata (msg_next w + k) ''source_topic'' ?w' = t_name (topic_heap w t) \<and>
          GetMetadata (msg_next w + k) ''delivery_id'' ?w' =
            uuid_gen w (uuid_reads w + 2 * k + 1)"
      using ids [OF k] pl md by simp
  qed
  assume i: "inj (uuid_gen w)"
  show "\<forall>j<length ?subs. \<forall>k<length ?subs.
            j \<noteq> k \<longrightarrow>
            ID (msg_heap ?w' (msg_next w + j)) \<noteq> ID (msg_heap ?w' (msg_next w + k))"
  proof (intro allI impI)
    fix j k assume j: "j < length ?subs" and k: "k < length ?subs" and ne: "j \<noteq> k"
    from ne have "uuid_reads w + 2 * j \<noteq> uuid_reads w + 2 * k"
      by simp
    with i have "uuid_gen w (uuid_reads w + 2 * j) \<noteq> uuid_gen w (uuid_reads w + 2 * k)"
      by (simp add: inj_eq)
    then show "ID (msg_heap ?w' (msg_next w + j)) \<noteq> ID (msg_heap ?w' (msg_next w + k))"
      by (simp add: ids [OF j] ids [OF k])
  qed
qed

lemma w_t_values:
  "msg_next w_t = 1" "map_next w_t = 0" "uuid_reads w_t = 0"
  "subscribers (topic_heap w_t 0) = [0, 1]" "t_name (topic_heap w_t 0) = ''orders.created''"
  "messages (queue_heap w_t q) = []"
  "msg_heap w_t 0 = sample_msg ''m'' 0 0 ''''"
  "uuid_gen w_t n = replicate (Suc n) CHR ''u''"
  by (simp_all add: w_t_def world0_def blank_Queue_def)

lemma w_t_publishable: "publishable w_t 0" "inj (uuid_gen w_t)"
  by (simp_all add: publishable_def msg_allocated_def uuids_nonempty_def w_t_values
      sample_msg_def inj_def)

text \<open>An instance: publishing message 0 to the topic of \<open>w_t\<close> puts clone 1 into queue 0
  and clone 2 into queue 1.\<close>

theorem Topic_Publish_fans_out_witness:
  "publishable w_t 0 \<and> inj (uuid_gen w_t) \<and>
   fst (Topic_Publish context_Background 0 0 w_t) = None \<and>
   msg_next (snd (Topic_Publish context_Background 0 0 w_t)) = 3 \<and>
   messages (queue_heap (snd (Topic_Publish context_Background 0 0 w_t)) 0) = [1] \<and>
   messages (queue_heap (snd (Topic_Publish context_Background 0 0 w_t)) 1) = [2] \<and>
   ID (msg_heap (snd (Topic_Publish context_Background 0 0 w_t)) 1) = ''u'' \<and>
   ID (msg_heap (snd (Topic_Publish context_Background 0 0 w_t)) 2) = ''uuu'' \<and>
   Payload (msg_heap (snd (Topic_Publish context_Background 0 0 w_t)) 1) = [1, 2, 3] \<and>
   Payload (msg_heap (snd (Topic_Publish context_Background 0 0 w_t)) 2) = [1, 2, 3] \<and>
   GetMetadata 1 ''source_topic'' (snd (Topic_Publish context_Background 0 0 w_t)) =
     ''orders.created'' \<and>
   GetMetadata 2 ''source_topic'' (snd (Topic_Publish context_Background 0 0 w_t)) =
     ''orders.created'' \<and>
   GetMetadata 1 ''delivery_id'' (snd (Topic_Publish context_Background 0 0 w_t)) = ''uu'' \<and>
   GetMetadata 2 ''delivery_id'' (snd (Topic_Publish context_Background 0 0 w_t)) = ''uuuu'' \<and>
   ID (msg_heap (snd (Topic_Publish context_Background 0 0 w_t)) 1) \<noteq>
   ID (msg_heap (snd (Topic_Publish context_Background 0 0 w_t)) 2)"
proof -
  let ?w' = "snd (Topic_Publish context_Background 0 0 w_t)"
  note T = Topic_Publish_fans_out [of context_Background 0 0 w_t Some]
  from T have ok: "fst (Topic_Publish context_Background 0 0 w_t) = None"
    by blast
  from T w_t_publishable(1) have n: "msg_next ?w' = 3"
    by (simp add: w_t_values)
  from T w_t_publishable(1)
  have "\<forall>q. messages (queue_heap ?w' q) =
          messages (queue_heap w_t q) @ deliveries (msg_next w_t) (subscribers (topic_heap w_t 0)) q"
    by blast
  then have q: "messages (queue_heap ?w' 0) = [1]" "messages (queue_heap ?w' 1) = [2]"
    by (simp_all add: w_t_values)
  from T w_t_publishable(1)
  have k: "\<forall>k<length (subscribers (topic_heap w_t 0)).
          ID (msg_heap ?w' (msg_next w_t + k)) = uuid_gen w_t (uuid_reads w_t + 2 * k) \<and>
          Payload (msg_heap ?w' (msg_next w_t + k)) = Payload (msg_heap w_t 0) \<and>
          GetMetadata (msg_next w_t + k) ''source_topic'' ?w' = t_name (topic_heap w_t 0) \<and>
          GetMetadata (msg_next w_t + k) ''delivery_id'' ?w' =
            uuid_gen w_t (uuid_reads w_t + 2 * k + 1)"
    by blast
  have k0: "ID (msg_heap ?w' 1) = ''u'' \<and> Payload (msg_heap ?w' 1) = [1, 2, 3] \<and>
      GetMetadata 1 ''source_topic'' ?w' = ''orders.created'' \<and>
      GetMetadata 1 ''delivery_id'' ?w' = ''uu''"
    using k [rule_format, of 0] by (simp add: w_t_values sample_msg_def)
  have k1: "ID (msg_heap ?w' 2) = ''uuu'' \<and> Payload (msg_heap ?w' 2) = [1, 2, 3] \<and>
      GetMetadata 2 ''source_topic'' ?w' = ''orders.created'' \<and>
      GetMetadata 2 ''delivery_id'' ?w' = ''uuuu''"
    using k [rule_format, of 1] by (simp add: w_t_values sample_msg_def numeral_2_eq_2 numeral_3_eq_3)
  from T w_t_publishable
  have "\<forall>j<length (subscribers (topic_heap w_t 0)).
        \<forall>k<length (subscribers (topic_heap w_t 0)).
          j \<noteq> k \<longrightarrow>
          ID (msg_heap ?w' (msg_next w_t + j)) \<noteq> ID (msg_heap ?w' (msg_next w_t + k))"
    by blast
  from this [rule_format, of 0 1]
  have d: "ID (msg_heap ?w' 1) \<noteq> ID (msg_heap ?w' 2)"
    by (simp add: w_t_values numeral_2_eq_2)
  from ok n q k0 k1 w_t_publishable show ?thesis
    using d by simp
qed

subsection \<open>Publish and the context's deadline\<close>

lemma Topic_Publish_messages:
  assumes "publishable w m"
  shows "messages (queue_heap (snd (Topic_Publish ctx t m w)) q) =
     messages (queue_heap w q) @ deliveries (msg_next w) (subscribers (topic_heap w t)) q"
  using Publish_loop_messages [OF publish_start_publishable(1) [OF assms]]
  by (simp add: Topic_Publish_eq publish_start_simps)

lemma Enqueue_ignores_context: "Enqueue ctx q m w = Enqueue ctx' q m w"
  by (simp add: Enqueue_eq)

lemma deliver_ignores_context: "deliver ctx t m q w = deliver ctx' t m q w"
  by (simp add: deliver_def Enqueue_ignores_context [of ctx _ _ _ ctx'])

lemma Publish_loop_ignores_context:
  "Publish_loop ctx t m subs w = Publish_loop ctx' t m subs w"
  by (induction subs arbitrary: w) (simp_all add: deliver_ignores_context [of ctx _ _ _ _ ctx'])

lemma Topic_Publish_ignores_context:
  "Topic_Publish ctx t m w = Topic_Publish ctx' t m w"
  by (simp add: Topic_Publish_eq Publish_loop_ignores_context [of ctx _ _ _ _ ctx'])

text \<open>
  \<^bold>\<open>C8\<close> (as amended).  Neither \<open>Topic.Publish\<close> nor \<open>Broker.Publish\<close> looks at the
  context: with any two contexts, whatever their deadlines, they return the same result
  and leave the same store.  So a deadline that is exceeded aborts nothing: \<open>Publish\<close>
  returns no error, and for a publishable message every queue grows by as many clones as
  it has entries in the topic's subscriber list.
\<close>

theorem Publish_ignores_deadline:
  "Topic_Publish ctx t m w = Topic_Publish ctx' t m w \<and>
   Broker_Publish ctx topicName m b w = Broker_Publish ctx' topicName m b w \<and>
   fst (Topic_Publish ctx t m w) = None \<and>
   (publishable w m \<longrightarrow>
      (\<forall>q. length (messages (queue_heap (snd (Topic_Publish ctx t m w)) q)) =
             length (messages (queue_heap w q)) + count_list (subscribers (topic_heap w t)) q))"
proof (intro conjI impI allI)
  show "Topic_Publish ctx t m w = Topic_Publish ctx' t m w"
    by (rule Topic_Publish_ignores_context)
  show "Broker_Publish ctx topicName m b w = Broker_Publish ctx' topicName m b w"
    by (simp add: Broker_Publish_def Topic_Publish_ignores_context [of ctx _ _ _ ctx']
        split: option.splits)
  show "fst (Topic_Publish ctx t m w) = None"
    by (simp add: Topic_Publish_eq)
next
  fix q assume "publishable w m"
  then show "length (messages (queue_heap (snd (Topic_Publish ctx t m w)) q)) =
             length (messages (queue_heap w q)) + count_list (subscribers (topic_heap w t)) q"
    by (simp add: Topic_Publish_messages length_deliveries)
qed

theorem Publish_ignores_deadline_witness:
  "publishable w_t 0 \<and>
   Topic_Publish expired_ctx 0 0 w_t = Topic_Publish context_Background 0 0 w_t \<and>
   length (messages (queue_heap (snd (Topic_Publish expired_ctx 0 0 w_t)) 0)) = 1 \<and>
   length (messages (queue_heap (snd (Topic_Publish expired_ctx 0 0 w_t)) 1)) = 1"
proof -
  note P = Publish_ignores_deadline [of expired_ctx 0 0 w_t context_Background "''x''" "NewBroker c"]
  from P have "Topic_Publish expired_ctx 0 0 w_t = Topic_Publish context_Background 0 0 w_t"
    by blast
  moreover from P w_t_publishable(1)
  have "\<forall>q. length (messages (queue_heap (snd (Topic_Publish expired_ctx 0 0 w_t)) q)) =
             length (messages (queue_heap w_t q)) + count_list (subscribers (topic_heap w_t 0)) q"
    by blast
  then have "length (messages (queue_heap (snd (Topic_Publish expired_ctx 0 0 w_t)) 0)) = 1 \<and>
             length (messages (queue_heap (snd (Topic_Publish expired_ctx 0 0 w_t)) 1)) = 1"
    by (simp add: w_t_values)
  ultimately show ?thesis
    using w_t_publishable(1) by simp
qed

text \<open>The claim as it was stated fails: in \<open>w_t\<close> the clock reads 1000 and later, the
  context's deadline is instant 0, exceeded before the first subscriber is reached, and
  both subscribers still receive their clone.\<close>

theorem Publish_deadline_counterexample:
  "deadline expired_ctx = Some 0 \<and> clock w_t (clock_reads w_t) = 1000 \<and>
   subscribers (topic_heap w_t 0) = [0, 1] \<and>
   messages (queue_heap w_t 0) = [] \<and> messages (queue_heap w_t 1) = [] \<and>
   fst (Topic_Publish expired_ctx 0 0 w_t) = None \<and>
   messages (queue_heap (snd (Topic_Publish expired_ctx 0 0 w_t)) 0) = [1] \<and>
   messages (queue_heap (snd (Topic_Publish expired_ctx 0 0 w_t)) 1) = [2]"
proof -
  have "clock w_t (clock_reads w_t) = 1000"
    by (simp add: w_t_def world0_def)
  moreover have "fst (Topic_Publish expired_ctx 0 0 w_t) = None"
    by (simp add: Topic_Publish_eq)
  ultimately show ?thesis
    by (simp add: Topic_Publish_messages [OF w_t_publishable(1)] w_t_values expired_ctx_def)
qed

subsection \<open>Enqueue and the retry bound\<close>

lemma w_e_values:
  "msg_heap w_e 0 = sample_msg ''x'' 5 0 ''''" "messages (queue_heap w_e 0) = []"
  "maxRetries (queue_heap w_e 0) = 3"
  by (simp_all add: w_e_def world0_def blank_Queue_def)

text \<open>The claim as it was stated fails: \<open>Enqueue\<close> appends a message whose \<open>RetryCount\<close>
  is 5 to a queue whose \<open>maxRetries\<close> is 3.\<close>

theorem Enqueue_retry_bound_counterexample:
  "messages (queue_heap (snd (Enqueue context_Background 0 0 w_e)) 0) = [0] \<and>
   RetryCount (msg_heap (snd (Enqueue context_Background 0 0 w_e)) 0) = 5 \<and>
   maxRetries (queue_heap (snd (Enqueue context_Background 0 0 w_e)) 0) = 3 \<and>
   \<not> sint (RetryCount (msg_heap (snd (Enqueue context_Background 0 0 w_e)) 0))
       \<le> sint (maxRetries (queue_heap (snd (Enqueue context_Background 0 0 w_e)) 0))"
  by (simp add: Enqueue_eq w_e_values sample_msg_def)

text \<open>
  \<^bold>\<open>C9\<close> (as amended).  \<open>Enqueue\<close> appends the message it is given and changes neither
  its \<open>RetryCount\<close> nor the queue's \<open>maxRetries\<close>, and it compares the two nowhere: the
  appended message satisfies \<open>RetryCount \<le> maxRetries\<close> exactly when the message passed
  in did.  The clone that a turn of the fan-out loop of \<open>Topic.Publish\<close> enqueues has
  \<open>RetryCount\<close> 0, so it satisfies the bound in every queue whose \<open>maxRetries\<close> is not
  negative.
\<close>

theorem Enqueue_keeps_retry_count:
  "messages (queue_heap (snd (Enqueue ctx q m w)) q) = messages (queue_heap w q) @ [m] \<and>
   RetryCount (msg_heap (snd (Enqueue ctx q m w)) m) = RetryCount (msg_heap w m) \<and>
   maxRetries (queue_heap (snd (Enqueue ctx q m w)) q) = maxRetries (queue_heap w q) \<and>
   (sint (RetryCount (msg_heap (snd (Enqueue ctx q m w)) m))
      \<le> sint (maxRetries (queue_heap (snd (Enqueue ctx q m w)) q)) \<longleftrightarrow>
    sint (RetryCount (msg_heap w m)) \<le> sint (maxRetries (queue_heap w q))) \<and>
   (publishable w m \<and> 0 \<le> sint (maxRetries (queue_heap w q)) \<longrightarrow>
      messages (queue_heap (deliver ctx t m q w) q) = messages (queue_heap w q) @ [msg_next w] \<and>
      RetryCount (msg_heap (deliver ctx t m q w) (msg_next w)) = 0 \<and>
      sint (RetryCount (msg_heap (deliver ctx t m q w) (msg_next w)))
        \<le> sint (maxRetries (queue_heap (deliver ctx t m q w) q)))"
proof (intro conjI impI)
  show "messages (queue_heap (snd (Enqueue ctx q m w)) q) = messages (queue_heap w q) @ [m]"
    and "RetryCount (msg_heap (snd (Enqueue ctx q m w)) m) = RetryCount (msg_heap w m)"
    and "maxRetries (queue_heap (snd (Enqueue ctx q m w)) q) = maxRetries (queue_heap w q)"
    and "sint (RetryCount (msg_heap (snd (Enqueue ctx q m w)) m))
      \<le> sint (maxRetries (queue_heap (snd (Enqueue ctx q m w)) q)) \<longleftrightarrow>
    sint (RetryCount (msg_heap w m)) \<le> sint (maxRetries (queue_heap w q))"
    by (simp_all add: Enqueue_eq)
next
  assume a: "publishable w m \<and> 0 \<le> sint (maxRetries (queue_heap w q))"
  then have eq: "deliver ctx t m q w =
     w\<lparr>uuid_reads := Suc (Suc (uuid_reads w)),
       clock_reads := (if Timestamp (msg_heap w m) = 0 then Suc (clock_reads w) else clock_reads w),
       msg_heap := (msg_heap w)(msg_next w := delivered w m),
       msg_next := Suc (msg_next w),
       map_heap := (map_heap w)(map_next w := delivery_map w (t_name (topic_heap w t)) m),
       map_next := Suc (map_next w),
       queue_heap := (queue_heap w)
          (q := (queue_heap w q)
             \<lparr>messages := messages (queue_heap w q) @ [msg_next w],
              q_stats := (q_stats (queue_heap w q))
                \<lparr>TotalReceived := TotalReceived (q_stats (queue_heap w q)) + 1,
                 CurrentSize := of_nat (Suc (length (messages (queue_heap w q))))\<rparr>\<rparr>)\<rparr>"
    by (intro deliver_eq) (simp_all add: publishable_def uuids_nonempty_def)
  show "messages (queue_heap (deliver ctx t m q w) q) = messages (queue_heap w q) @ [msg_next w]"
    by (simp add: eq)
  show "RetryCount (msg_heap (deliver ctx t m q w) (msg_next w)) = 0"
    by (simp add: eq delivered_def cloned_def)
  from a show "sint (RetryCount (msg_heap (deliver ctx t m q w) (msg_next w)))
        \<le> sint (maxRetries (queue_heap (deliver ctx t m q w) q))"
    by (simp add: eq delivered_def cloned_def)
qed

theorem Enqueue_keeps_retry_count_witness:
  "publishable w_t 0 \<and> 0 \<le> sint (maxRetries (queue_heap w_t 0)) \<and>
   messages (queue_heap (deliver context_Background 0 0 0 w_t) 0) = [1] \<and>
   RetryCount (msg_heap (deliver context_Background 0 0 0 w_t) 1) = 0 \<and>
   maxRetries (queue_heap (deliver context_Background 0 0 0 w_t) 0) = 3"
proof -
  have m: "maxRetries (queue_heap w_t 0) = 3"
    by (simp add: w_t_def world0_def blank_Queue_def)
  have "maxRetries (queue_heap (deliver context_Background 0 0 0 w_t) 0) = 3"
    using w_t_publishable(1) m
    by (simp add: deliver_eq publishable_def uuids_nonempty_def)
  with Enqueue_keeps_retry_count [of context_Background 0 0 w_t 0]
    w_t_publishable(1) m
  show ?thesis
    by (simp add: w_t_values)
qed

subsection \<open>Broker.CreateTopic and Broker.CreateQueue\<close>



subsection \<open>The idempotency store\<close>

lemma MarkProcessed_eq:
  "MarkProcessed st i w =
     (None,
      w\<lparr>clock_reads := Suc (clock_reads w),
        store_heap := (store_heap w)
          (st := (store_heap w st)
             \<lparr>processed := (processed (store_heap w st))(i \<mapsto> clock w (clock_reads w))\<rparr>)\<rparr>)"
  by (simp add: MarkProcessed_def time_Now_def Let_def)

text \<open>The difference of two instants as a \<open>Duration\<close>: exact between the bounds, and on
  the same side of a time to live that is itself below the largest \<open>Duration\<close>.\<close>

lemma time_Sub_exact:
  "minDuration \<le> t - u \<Longrightarrow> t - u \<le> maxDuration \<Longrightarrow> time_Sub t u = t - u"
  by (simp add: time_Sub_def)




lemma IsProcessed_marked:
  "processed (store_heap w st) i = Some ts \<Longrightarrow>
   IsProcessed st i w =
     (time_Sub (clock w (clock_reads w)) ts \<le> ttl (store_heap w st),
      w\<lparr>clock_reads := Suc (clock_reads w)\<rparr>)"
  by (auto simp: IsProcessed_def time_Since_def time_Now_def)

lemma IsProcessed_unmarked:
  "processed (store_heap w st) i = None \<Longrightarrow> IsProcessed st i w = (False, w)"
  by (simp add: IsProcessed_def)




lemma w_s_values:
  "processed (store_heap w_s 0) ''old'' = Some 990"
  "processed (store_heap w_s 0) ''stale'' = Some 800"
  "processed (store_heap w_s 0) ''new'' = None"
  "ttl (store_heap w_s 0) = 100"
  "clock w_s n = 1000 + int n" "clock_reads w_s = 0"
  "ID (msg_heap w_s 0) = ''old''" "ID (msg_heap w_s (Suc 0)) = ''new''"
  by (simp_all add: w_s_def world0_def sample_msg_def)




subsection \<open>IdempotentWorker\<close>

text \<open>
  \<^bold>\<open>C7.\<close>  The handler of the worker that \<open>IdempotentWorker\<close> builds is
  \<open>wrappedHandler\<close>.  When the store answers that the message's \<open>ID\<close> is processed, it
  returns no error and the store as that question left it: the result does not depend
  on the inner handler, which is not called.  Otherwise it calls the inner handler.  When
  the inner handler returns an error, the wrapped one returns that error and the store
  exactly as the inner handler left it: nothing is marked.  When the inner handler
  succeeds, the wrapped one returns what \<open>MarkProcessed\<close> returns for the message's
  \<open>ID\<close>; with the in-memory store that is no error, and the \<open>ID\<close> is recorded.
\<close>

theorem wrappedHandler_marks_only_on_success:
  "(fst (isProcessed store (ID (msg_heap w m)) w) \<longrightarrow>
      wrappedHandler h store m w = (None, snd (isProcessed store (ID (msg_heap w m)) w))) \<and>
   (\<not> fst (isProcessed store (ID (msg_heap w m)) w) \<and>
    h m (snd (isProcessed store (ID (msg_heap w m)) w)) = (Some e, w2) \<longrightarrow>
      wrappedHandler h store m w = (Some e, w2)) \<and>
   (\<not> fst (isProcessed store (ID (msg_heap w m)) w) \<and>
    h m (snd (isProcessed store (ID (msg_heap w m)) w)) = (None, w2) \<longrightarrow>
      wrappedHandler h store m w = markProcessed store (ID (msg_heap w2 m)) w2) \<and>
   (\<not> fst (IsProcessed st (ID (msg_heap w m)) w) \<and>
    h m (snd (IsProcessed st (ID (msg_heap w m)) w)) = (None, w2) \<longrightarrow>
      fst (wrappedHandler h (in_memory st) m w) = None \<and>
      processed (store_heap (snd (wrappedHandler h (in_memory st) m w)) st) (ID (msg_heap w2 m)) =
        Some (clock w2 (clock_reads w2))) \<and>
   handler (IdempotentWorker name queue h store) = wrappedHandler h store"
proof (intro conjI impI)
  assume "fst (isProcessed store (ID (msg_heap w m)) w)"
  then show "wrappedHandler h store m w = (None, snd (isProcessed store (ID (msg_heap w m)) w))"
    by (simp add: wrappedHandler_def split_def)
next
  assume "\<not> fst (isProcessed store (ID (msg_heap w m)) w) \<and>
    h m (snd (isProcessed store (ID (msg_heap w m)) w)) = (Some e, w2)"
  then show "wrappedHandler h store m w = (Some e, w2)"
    by (simp add: wrappedHandler_def split_def)
next
  assume "\<not> fst (isProcessed store (ID (msg_heap w m)) w) \<and>
    h m (snd (isProcessed store (ID (msg_heap w m)) w)) = (None, w2)"
  then show "wrappedHandler h store m w = markProcessed store (ID (msg_heap w2 m)) w2"
    by (simp add: wrappedHandler_def split_def)
next
  assume "\<not> fst (IsProcessed st (ID (msg_heap w m)) w) \<and>
    h m (snd (IsProcessed st (ID (msg_heap w m)) w)) = (None, w2)"
  then have eq: "wrappedHandler h (in_memory st) m w = MarkProcessed st (ID (msg_heap w2 m)) w2"
    by (simp add: wrappedHandler_def split_def in_memory_def)
  show "fst (wrappedHandler h (in_memory st) m w) = None"
    by (simp add: eq MarkProcessed_eq)
  show "processed (store_heap (snd (wrappedHandler h (in_memory st) m w)) st) (ID (msg_heap w2 m)) =
        Some (clock w2 (clock_reads w2))"
    by (simp add: eq MarkProcessed_eq)
next
  show "handler (IdempotentWorker name queue h store) = wrappedHandler h store"
    by (simp add: IdempotentWorker_def NewWorker_def)
qed

lemma w_s_checks:
  "IsProcessed 0 ''old'' w_s = (True, w_s\<lparr>clock_reads := Suc 0\<rparr>)"
  "IsProcessed 0 ''new'' w_s = (False, w_s)"
  by (simp_all add: IsProcessed_marked IsProcessed_unmarked w_s_values time_Sub_def
      minDuration_def maxDuration_def)

theorem wrappedHandler_marks_only_on_success_witness:
  "fst (isProcessed (in_memory 0) (ID (msg_heap w_s 0)) w_s) \<and>
   wrappedHandler handler_ok (in_memory 0) 0 w_s = (None, w_s\<lparr>clock_reads := Suc 0\<rparr>) \<and>
   Type (msg_heap (snd (wrappedHandler handler_ok (in_memory 0) 0 w_s)) 0) = ''order'' \<and>
   \<not> fst (isProcessed (in_memory 0) (ID (msg_heap w_s 1)) w_s) \<and>
   fst (wrappedHandler handler_fail (in_memory 0) 1 w_s) = Some ErrMessageNotFound \<and>
   Type (msg_heap (snd (wrappedHandler handler_fail (in_memory 0) 1 w_s)) 1) = ''tried'' \<and>
   processed (store_heap (snd (wrappedHandler handler_fail (in_memory 0) 1 w_s)) 0) ''new'' = None \<and>
   fst (wrappedHandler handler_ok (in_memory 0) 1 w_s) = None \<and>
   Type (msg_heap (snd (wrappedHandler handler_ok (in_memory 0) 1 w_s)) 1) = ''handled'' \<and>
   processed (store_heap (snd (wrappedHandler handler_ok (in_memory 0) 1 w_s)) 0) ''new'' = Some 1000"
proof -
  note W = wrappedHandler_marks_only_on_success
  have old: "fst (isProcessed (in_memory 0) (ID (msg_heap w_s 0)) w_s)"
    and new: "\<not> fst (isProcessed (in_memory 0) (ID (msg_heap w_s 1)) w_s)"
    by (simp_all add: in_memory_def w_s_values w_s_checks)
  have ty: "Type (msg_heap w_s 0) = ''order''"
    by (simp add: w_s_def sample_msg_def)
  from W [where store = "in_memory 0" and w = w_s and m = 0 and h = handler_ok and st = 0] old
  have 1: "wrappedHandler handler_ok (in_memory 0) 0 w_s = (None, w_s\<lparr>clock_reads := Suc 0\<rparr>)"
    by (simp add: in_memory_def w_s_values w_s_checks)
  have hf: "handler_fail 1 (snd (isProcessed (in_memory 0) (ID (msg_heap w_s 1)) w_s)) =
      (Some ErrMessageNotFound, put_msg 1 ((msg_heap w_s 1)\<lparr>Type := ''tried''\<rparr>) w_s)"
    by (simp add: handler_fail_def in_memory_def w_s_values w_s_checks)
  from W [where store = "in_memory 0" and w = w_s and m = 1 and h = handler_fail and st = 0
      and e = ErrMessageNotFound and ?w2.0 = "put_msg 1 ((msg_heap w_s 1)\<lparr>Type := ''tried''\<rparr>) w_s"]
    new hf
  have 2: "wrappedHandler handler_fail (in_memory 0) 1 w_s =
      (Some ErrMessageNotFound, put_msg 1 ((msg_heap w_s 1)\<lparr>Type := ''tried''\<rparr>) w_s)"
    by simp
  have hk: "handler_ok 1 (snd (IsProcessed 0 (ID (msg_heap w_s 1)) w_s)) =
      (None, put_msg 1 ((msg_heap w_s 1)\<lparr>Type := ''handled''\<rparr>) w_s)"
    by (simp add: handler_ok_def w_s_values w_s_checks)
  from W [where store = "in_memory 0" and w = w_s and m = 1 and h = handler_ok and st = 0
      and ?w2.0 = "put_msg 1 ((msg_heap w_s 1)\<lparr>Type := ''handled''\<rparr>) w_s"]
    new hk
  have 3: "wrappedHandler handler_ok (in_memory 0) 1 w_s =
      MarkProcessed 0 (ID (msg_heap w_s 1)) (put_msg 1 ((msg_heap w_s 1)\<lparr>Type := ''handled''\<rparr>) w_s)"
    by (simp add: in_memory_def put_msg_def)
  from old new ty show ?thesis
    unfolding 1 2 3
    by (simp add: MarkProcessed_eq put_msg_def w_s_values)
qed

end
